theory Spec2Isabelle
  imports Main "HOL-Library.Word"
begin

unbundle bit_operations_syntax

section \<open>Values shared by the whole model\<close>

text \<open>
  A Go \<^verbatim>\<open>string\<close> is an immutable sequence of bytes and is modelled by \<^typ>\<open>string\<close>
  (a list of 8-bit characters); \<^verbatim>\<open>[]byte\<close> is a list of 8-bit words. The conversions
  \<^verbatim>\<open>[]byte(s)\<close> and \<^verbatim>\<open>string(b)\<close> copy the bytes unchanged.
\<close>

type_synonym byte = "8 word"
type_synonym bytes = "byte list"

definition byte_of_char :: "char \<Rightarrow> byte" where
  "byte_of_char c = of_nat (of_char c)"

definition char_of_byte :: "byte \<Rightarrow> char" where
  "char_of_byte b = char_of (unat b)"

definition bytes_of_string :: "string \<Rightarrow> bytes" where
  "bytes_of_string s = map byte_of_char s"

definition string_of_bytes :: "bytes \<Rightarrow> string" where
  "string_of_bytes b = map char_of_byte b"

text \<open>
  Go errors are values. The constructors name the library errors that reach the code and
  \<open>Wrap\<close> is \<^verbatim>\<open>fmt.Errorf("<msg>: %w", err)\<close>.
\<close>

datatype error =
    EOF
  | RandReadError
  | KeySizeError nat
  | CorruptInputError
  | AuthenticationFailed
  | ErrRecordNotFound
  | PgError string
  | ErrorString string
  | Wrap string error

text \<open>\<^verbatim>\<open>errors.Is\<close> and \<^verbatim>\<open>errors.As\<close> (for \<open>*pgconn.PgError\<close>) follow the chain of wrapped errors.\<close>

fun errors_Is :: "error \<Rightarrow> error \<Rightarrow> bool" where
  "errors_Is (Wrap msg err) target = (Wrap msg err = target \<or> errors_Is err target)"
| "errors_Is err target = (err = target)"

fun errors_As_PgError :: "error \<Rightarrow> string option" where
  "errors_As_PgError (Wrap msg err) = errors_As_PgError err"
| "errors_As_PgError (PgError code) = Some code"
| "errors_As_PgError err = None"

text \<open>
  A call of a Go function either returns its value, returns an error, or panics
  (index out of range, a panic raised inside a library).
\<close>

datatype panic = IndexOutOfRange | IncorrectNonceLength | MessageTooLarge

datatype 'a result = Ok 'a | Err error | Panic panic

section \<open>Library: encoding/base64, StdEncoding\<close>

text \<open>
  The standard alphabet with \<open>=\<close> padding. \<open>EncodeToString\<close> packs three bytes into a
  24-bit value and emits four 6-bit digits; \<open>DecodeString\<close> skips carriage returns and
  line feeds, reads quanta of four digits, accepts \<open>xx==\<close> and \<open>xxx=\<close> as the last quantum
  only, and reports \<open>CorruptInputError\<close> otherwise (the byte offset carried by the Go
  error is not modelled).
\<close>

definition encodeStd :: string where
  "encodeStd = ''ABCDEFGHIJKLMNOPQRSTUVWXYZabcdefghijklmnopqrstuvwxyz0123456789+/''"

definition enc6 :: "nat \<Rightarrow> char" where
  "enc6 i = encodeStd ! (i mod 64)"

fun indexByte :: "string \<Rightarrow> char \<Rightarrow> nat \<Rightarrow> nat option" where
  "indexByte [] c n = None"
| "indexByte (x # xs) c n = (if x = c then Some n else indexByte xs c (n + 1))"

definition decodeMap :: "char \<Rightarrow> nat option" where
  "decodeMap c = indexByte encodeStd c 0"

fun EncodeToString :: "bytes \<Rightarrow> string" where
  "EncodeToString [] = []"
| "EncodeToString [a] =
     (let v = unat a * 65536
      in [enc6 (v div 262144), enc6 (v div 4096), CHR ''='', CHR ''=''])"
| "EncodeToString [a, b] =
     (let v = unat a * 65536 + unat b * 256
      in [enc6 (v div 262144), enc6 (v div 4096), enc6 (v div 64), CHR ''=''])"
| "EncodeToString (a # b # c # rest) =
     (let v = unat a * 65536 + unat b * 256 + unat c
      in enc6 (v div 262144) # enc6 (v div 4096) # enc6 (v div 64) # enc6 v
           # EncodeToString rest)"

definition bytes_of_val :: "nat \<Rightarrow> nat \<Rightarrow> bytes" where
  "bytes_of_val n v = take n [of_nat (v div 65536), of_nat (v div 256), of_nat v]"

fun decodeQuanta :: "string \<Rightarrow> bytes option" where
  "decodeQuanta [] = Some []"
| "decodeQuanta (a # b # c # d # rest) =
     (case (decodeMap a, decodeMap b) of
        (Some x, Some y) \<Rightarrow>
          (case decodeMap c of
             Some z \<Rightarrow>
               (case decodeMap d of
                  Some w \<Rightarrow>
                    (case decodeQuanta rest of
                       Some out \<Rightarrow>
                         Some (bytes_of_val 3 (x * 262144 + y * 4096 + z * 64 + w) @ out)
                     | None \<Rightarrow> None)
                | None \<Rightarrow>
                    if d = CHR ''='' \<and> rest = []
                    then Some (bytes_of_val 2 (x * 262144 + y * 4096 + z * 64))
                    else None)
           | None \<Rightarrow>
               if c = CHR ''='' \<and> d = CHR ''='' \<and> rest = []
               then Some (bytes_of_val 1 (x * 262144 + y * 4096))
               else None)
      | _ \<Rightarrow> None)"
| "decodeQuanta _ = None"

definition DecodeString :: "string \<Rightarrow> error + bytes" where
  "DecodeString s =
     (case decodeQuanta (filter (\<lambda>c. c \<noteq> CHR 0x0A \<and> c \<noteq> CHR 0x0D) s) of
        Some out \<Rightarrow> Inr out
      | None \<Rightarrow> Inl CorruptInputError)"

section \<open>Library: strings.Split with a one-byte separator\<close>

fun strings_Split :: "string \<Rightarrow> char \<Rightarrow> string list" where
  "strings_Split [] sep = [[]]"
| "strings_Split (x # xs) sep =
     (if x = sep then [] # strings_Split xs sep
      else (case strings_Split xs sep of
              [] \<Rightarrow> [[x]]
            | y # ys \<Rightarrow> (x # y) # ys))"

text \<open>Indexing a slice: out of range is a run-time panic.\<close>

definition index :: "'a list \<Rightarrow> nat \<Rightarrow> 'a result" where
  "index xs i = (if i < length xs then Ok (xs ! i) else Panic IndexOutOfRange)"


section \<open>Library: crypto/rand, crypto/aes and crypto/cipher (GCM)\<close>

text \<open>
  The random source is an explicit tape of bytes: \<^verbatim>\<open>rand.Read\<close> takes the next bytes from
  it and fails when the tape is exhausted.
\<close>

definition rand_Read :: "nat \<Rightarrow> bytes \<Rightarrow> (error + bytes) \<times> bytes" where
  "rand_Read n tape =
     (if length tape < n then (Inl RandReadError, tape)
      else (Inr (take n tape), drop n tape))"

text \<open>\<^verbatim>\<open>aes.NewCipher\<close> accepts keys of 16, 24 or 32 bytes only.\<close>

definition aes_NewCipher :: "bytes \<Rightarrow> error + bytes" where
  "aes_NewCipher key =
     (if length key = 16 \<or> length key = 24 \<or> length key = 32 then Inr key
      else Inl (KeySizeError (length key)))"

text \<open>\<^verbatim>\<open>cipher.NewGCM\<close> fails only for a block size other than 16; AES blocks have 16.\<close>

definition cipher_NewGCM :: "bytes \<Rightarrow> error + bytes" where
  "cipher_NewGCM block = Inr block"

definition NonceSize :: nat where
  "NonceSize = 12"

definition gcmMaxPlaintext :: nat where
  "gcmMaxPlaintext = (2 ^ 32 - 2) * 16"

text \<open>
  The authenticated cipher itself is a parameter: \<open>gcm_seal A key nonce plaintext\<close> is the
  ciphertext followed by the tag, \<open>gcm_open A key nonce sealed\<close> is the plaintext when the
  tag verifies. \<open>Seal\<close> and \<open>Open\<close> add the checks of the Go methods: both panic on a
  nonce of the wrong length, \<open>Seal\<close> panics on an oversized message, \<open>Open\<close> returns an
  error when authentication fails.
\<close>

record aead =
  gcm_seal :: "bytes \<Rightarrow> bytes \<Rightarrow> bytes \<Rightarrow> bytes"
  gcm_open :: "bytes \<Rightarrow> bytes \<Rightarrow> bytes \<Rightarrow> bytes option"

definition Seal :: "aead \<Rightarrow> bytes \<Rightarrow> bytes \<Rightarrow> bytes \<Rightarrow> bytes result" where
  "Seal A aesgcm nonce plaintext =
     (if length nonce \<noteq> NonceSize then Panic IncorrectNonceLength
      else if gcmMaxPlaintext < length plaintext then Panic MessageTooLarge
      else Ok (gcm_seal A aesgcm nonce plaintext))"

definition Open :: "aead \<Rightarrow> bytes \<Rightarrow> bytes \<Rightarrow> bytes \<Rightarrow> bytes result" where
  "Open A aesgcm nonce sealed =
     (if length nonce \<noteq> NonceSize then Panic IncorrectNonceLength
      else (case gcm_open A aesgcm nonce sealed of
              None \<Rightarrow> Err AuthenticationFailed
            | Some plaintext \<Rightarrow> Ok plaintext))"

text \<open>The contract of the cipher: opening what was sealed under the same key and nonce.\<close>

definition gcm_correct :: "aead \<Rightarrow> bool" where
  "gcm_correct A \<longleftrightarrow>
     (\<forall>key nonce plaintext.
        (length key = 16 \<or> length key = 24 \<or> length key = 32) \<longrightarrow>
        length nonce = NonceSize \<longrightarrow>
        gcm_open A key nonce (gcm_seal A key nonce plaintext) = Some plaintext)"

section \<open>Crypto engine (handler/grpc/storage.go, UTILS)\<close>

definition sizeRandomKey :: nat where
  "sizeRandomKey = 16"

text \<open>
  \<open>adjustKeySize\<close>: the only callers pass \<open>sizeRandomKey\<close>, so the desired size is a
  natural number here.
\<close>

definition adjustKeySize :: "bytes \<Rightarrow> nat \<Rightarrow> bytes" where
  "adjustKeySize originalKey desiredSize =
     (if length originalKey > desiredSize then take desiredSize originalKey
      else originalKey)"

definition generateRandom :: "nat \<Rightarrow> bytes \<Rightarrow> (error + bytes) \<times> bytes" where
  "generateRandom sz tape =
     (case rand_Read sz tape of
        (Inl err, tape') \<Rightarrow> (Inl (Wrap ''failed generate byte'' err), tape')
      | (Inr b, tape') \<Rightarrow> (Inr b, tape'))"

definition encrypt :: "aead \<Rightarrow> bytes \<Rightarrow> bytes \<Rightarrow> bytes \<Rightarrow> (string \<times> bytes) result" where
  "encrypt A key plaintext tape =
     (let keyBytes = adjustKeySize key sizeRandomKey in
      case aes_NewCipher keyBytes of
        Inl err \<Rightarrow> Err (Wrap ''failed to create AES cipher'' err)
      | Inr block \<Rightarrow>
          (case cipher_NewGCM block of
             Inl err \<Rightarrow> Err (Wrap ''failed to create chiper'' err)
           | Inr aesgcm \<Rightarrow>
               (case generateRandom NonceSize tape of
                  (Inl err, tape') \<Rightarrow> Err (Wrap ''failed to generate random bytes'' err)
                | (Inr nonce, tape') \<Rightarrow>
                    (case Seal A aesgcm nonce plaintext of
                       Panic p \<Rightarrow> Panic p
                     | Err err \<Rightarrow> Err err
                     | Ok dst \<Rightarrow>
                         Ok (EncodeToString nonce @ ''*'' @ EncodeToString dst, tape')))))"

definition decrypt :: "aead \<Rightarrow> bytes \<Rightarrow> string \<Rightarrow> bytes result" where
  "decrypt A key plaintext =
     (let splStr = strings_Split plaintext (CHR ''*'') in
      case index splStr 0 of
        Panic p \<Rightarrow> Panic p
      | Err err \<Rightarrow> Err err
      | Ok s0 \<Rightarrow>
          (case DecodeString s0 of
             Inl err \<Rightarrow> Err (Wrap ''failed decode base64'' err)
           | Inr decNonce \<Rightarrow>
               (case index splStr 1 of
                  Panic p \<Rightarrow> Panic p
                | Err err \<Rightarrow> Err err
                | Ok s1 \<Rightarrow>
                    (case DecodeString s1 of
                       Inl err \<Rightarrow> Err (Wrap ''failed decode base64'' err)
                     | Inr decString \<Rightarrow>
                         (let keyBytes = adjustKeySize key sizeRandomKey in
                          case aes_NewCipher keyBytes of
                            Inl err \<Rightarrow> Err (Wrap ''failed to create AES cipher'' err)
                          | Inr block \<Rightarrow>
                              (case cipher_NewGCM block of
                                 Inl err \<Rightarrow> Err (Wrap ''failed to create chiper'' err)
                               | Inr aesgcm \<Rightarrow>
                                   (case Open A aesgcm decNonce decString of
                                      Panic p \<Rightarrow> Panic p
                                    | Err err \<Rightarrow> Err (Wrap ''failed open decrypts'' err)
                                    | Ok dst \<Rightarrow> Ok dst)))))))"

definition encryptionData ::
  "aead \<Rightarrow> string \<Rightarrow> bytes \<Rightarrow> bytes \<Rightarrow> ((string \<times> string) \<times> bytes) result" where
  "encryptionData A mk data tape =
     (case generateRandom sizeRandomKey tape of
        (Inl err, tape1) \<Rightarrow> Err (Wrap ''failed to generate random bytes'' err)
      | (Inr key, tape1) \<Rightarrow>
          (case encrypt A (bytes_of_string mk) key tape1 of
             Panic p \<Rightarrow> Panic p
           | Err err \<Rightarrow> Err (Wrap ''failed encript key'' err)
           | Ok (encKey, tape2) \<Rightarrow>
               (case encrypt A key data tape2 of
                  Panic p \<Rightarrow> Panic p
                | Err err \<Rightarrow> Err (Wrap ''failed encript data'' err)
                | Ok (encData, tape3) \<Rightarrow> Ok ((encData, encKey), tape3))))"

definition decryptionData :: "aead \<Rightarrow> string \<Rightarrow> string \<Rightarrow> string \<Rightarrow> bytes result" where
  "decryptionData A mk key data =
     (case decrypt A (bytes_of_string mk) key of
        Panic p \<Rightarrow> Panic p
      | Err err \<Rightarrow> Err (Wrap ''failed decrypt key'' err)
      | Ok decKey \<Rightarrow>
          (case decrypt A decKey data of
             Panic p \<Rightarrow> Panic p
           | Err err \<Rightarrow> Err (Wrap ''failed decrypt data'' err)
           | Ok decData \<Rightarrow> Ok decData))"


section \<open>Reference cipher used to instantiate the parameter\<close>

text \<open>
  A stand-in for the authenticated cipher that meets \<open>gcm_correct\<close>: every byte is
  combined with a mask folded from key and nonce, and the tag is sixteen copies of the
  mask. It only serves to run the model on concrete inputs.
\<close>

definition maskOf :: "bytes \<Rightarrow> bytes \<Rightarrow> byte" where
  "maskOf key nonce = fold (\<lambda>b acc. b XOR acc) (key @ nonce) 0"

definition refSeal :: "bytes \<Rightarrow> bytes \<Rightarrow> bytes \<Rightarrow> bytes" where
  "refSeal key nonce plaintext =
     map (\<lambda>b. b XOR maskOf key nonce) plaintext @ replicate 16 (maskOf key nonce)"

definition refOpen :: "bytes \<Rightarrow> bytes \<Rightarrow> bytes \<Rightarrow> bytes option" where
  "refOpen key nonce sealed =
     (if length sealed < 16 then None
      else if drop (length sealed - 16) sealed = replicate 16 (maskOf key nonce)
      then Some (map (\<lambda>b. b XOR maskOf key nonce) (take (length sealed - 16) sealed))
      else None)"

definition refAead :: aead where
  "refAead = \<lparr>gcm_seal = refSeal, gcm_open = refOpen\<rparr>"

section \<open>Domain and wire types\<close>

text \<open>
  Go's \<^verbatim>\<open>int\<close> is a 64-bit word on the server's platforms, the wire type \<^verbatim>\<open>int32\<close> a
  32-bit word; \<open>int32(x)\<close> keeps the low 32 bits and \<open>int(y)\<close> sign-extends.
\<close>

type_synonym go_int = "64 word"
type_synonym int32 = "32 word"

text \<open>
  The claims of a token (middleware): user id, login, and the expiry of the registered
  claims in seconds, if set.
\<close>

record JWTclaims =
  claims_ID :: go_int
  claims_Login :: string
  claims_ExpiresAt :: "int option"

text \<open>
  Modelled from the spec: the declarations of \<open>domain.Storage\<close> and \<open>domain.User\<close> are not
  among the sources. The spec's Record has id, owner, name, kind, cipherValue and
  wrappedKey, its User has id, login and passwordHash; the field names are the ones the
  handlers and the repository use.
\<close>

record Storage =
  Storage_ID :: go_int
  Storage_Name :: string
  Storage_Type :: string
  Storage_Value :: string
  Storage_Key :: string
  Storage_Owner :: go_int

record User =
  User_ID :: go_int
  User_Login :: string
  User_Hash :: string

text \<open>
  Modelled from the spec: the generated \<open>proto\<close> messages are not among the sources. Each
  record has the fields of the wire surface that the handlers set and read; the getters of
  a generated message return the zero value on a nil receiver.
\<close>

record StorageUnit =
  Unit_Id :: int32
  Unit_Name :: string
  Unit_Type :: string
  Unit_Owner :: int32

record ReadAllRecordResponse =
  ReadAll_Units :: "StorageUnit list"
  ReadAll_Error :: string

record ReadRecordResponse =
  Read_Name :: string
  Read_Type :: string
  Read_Data :: bytes
  Read_Error :: string

record WriteRecordRequest =
  Chunk_Name :: string
  Chunk_Type :: string
  Chunk_Data :: bytes

record WriteRecordResponse =
  Write_Error :: string

record DeleteRecordResponse =
  Delete_Error :: string

record RegiserRequest =
  Register_Login :: string
  Register_Password :: string

record RegisterResponse =
  Register_Jwt :: string
  Register_Error :: string

record LoginRequest =
  Login_Login :: string
  Login_Password :: string

record LoginResponse =
  Login_Jwt :: string
  Login_Error :: string

definition GetName :: "WriteRecordRequest option \<Rightarrow> string" where
  "GetName x = (case x of None \<Rightarrow> [] | Some c \<Rightarrow> Chunk_Name c)"

definition GetType :: "WriteRecordRequest option \<Rightarrow> string" where
  "GetType x = (case x of None \<Rightarrow> [] | Some c \<Rightarrow> Chunk_Type c)"

definition GetData :: "WriteRecordRequest option \<Rightarrow> bytes" where
  "GetData x = (case x of None \<Rightarrow> [] | Some c \<Rightarrow> Chunk_Data c)"

section \<open>Identity claim in the call context (middleware)\<close>

text \<open>
  The call context holds the claims the gate attached under \<open>ContextKeyToken\<close>, or
  nothing. \<open>GetTokenFromContext\<close> returns the zero claims and \<open>False\<close> when they are absent.
\<close>

type_synonym call_context = "JWTclaims option"

definition zeroClaims :: JWTclaims where
  "zeroClaims = \<lparr>claims_ID = 0, claims_Login = [], claims_ExpiresAt = None\<rparr>"

definition GetTokenFromContext :: "call_context \<Rightarrow> JWTclaims \<times> bool" where
  "GetTokenFromContext ctx = (case ctx of None \<Rightarrow> (zeroClaims, False) | Some caller \<Rightarrow> (caller, True))"

definition SetTokenToContext :: "call_context \<Rightarrow> JWTclaims \<Rightarrow> call_context" where
  "SetTokenToContext ctx pl = Some pl"

section \<open>Repository (repository/pg) over a table of rows\<close>

text \<open>
  The store is a table of \<open>Storage\<close> rows in primary-key order and an optional fault that
  makes every statement fail. A statement of the ORM yields the rows it scanned, the
  number of rows affected and an error.
\<close>

record DB =
  db_storages :: "Storage list"
  db_fault :: "error option"

record gorm_result =
  RowsAffected :: int
  Error :: "error option"

definition selectIdNameOwner :: "Storage \<Rightarrow> Storage" where
  "selectIdNameOwner r =
     \<lparr>Storage_ID = Storage_ID r, Storage_Name = Storage_Name r, Storage_Type = [],
      Storage_Value = [], Storage_Key = [], Storage_Owner = Storage_Owner r\<rparr>"

text \<open>\<^verbatim>\<open>db.Select("id", "name", "owner").Find(&docs, "owner = ?", owner)\<close>\<close>

definition Select_Find :: "DB \<Rightarrow> go_int \<Rightarrow> Storage list \<times> gorm_result" where
  "Select_Find s owner =
     (case db_fault s of
        Some err \<Rightarrow> ([], \<lparr>RowsAffected = 0, Error = Some err\<rparr>)
      | None \<Rightarrow>
          (let docs = map selectIdNameOwner (filter (\<lambda>r. Storage_Owner r = owner) (db_storages s))
           in (docs, \<lparr>RowsAffected = int (length docs), Error = None\<rparr>)))"

text \<open>\<^verbatim>\<open>db.First(&doc, "id = ? AND owner = ?", id, owner)\<close>\<close>

definition First :: "DB \<Rightarrow> go_int \<Rightarrow> go_int \<Rightarrow> Storage option \<times> gorm_result" where
  "First s id' owner =
     (case db_fault s of
        Some err \<Rightarrow> (None, \<lparr>RowsAffected = 0, Error = Some err\<rparr>)
      | None \<Rightarrow>
          (case filter (\<lambda>r. Storage_ID r = id' \<and> Storage_Owner r = owner) (db_storages s) of
             [] \<Rightarrow> (None, \<lparr>RowsAffected = 0, Error = Some ErrRecordNotFound\<rparr>)
           | doc # _ \<Rightarrow> (Some doc, \<lparr>RowsAffected = 1, Error = None\<rparr>)))"

definition DB_ReadAllRecord :: "DB \<Rightarrow> go_int \<Rightarrow> error + Storage list" where
  "DB_ReadAllRecord s owner =
     (case Select_Find s owner of
        (docs, req) \<Rightarrow>
          if RowsAffected req = 0 then Inr []
          else (case Error req of
                  Some err \<Rightarrow> Inl err
                | None \<Rightarrow> Inr docs))"

definition DB_ReadRecord :: "DB \<Rightarrow> go_int \<Rightarrow> go_int \<Rightarrow> error + Storage option" where
  "DB_ReadRecord s id' owner =
     (case First s id' owner of
        (doc, req) \<Rightarrow>
          if RowsAffected req = 0 then Inr None
          else (case Error req of
                  Some err \<Rightarrow> Inl err
                | None \<Rightarrow> Inr doc))"

section \<open>Storage service (core/services)\<close>

text \<open>
  Modelled from the spec: \<open>services.StorageService\<close> is not among the sources. The
  handlers reach the store through it; a service is the results of its four operations,
  where a nil slice is the empty list and a nil record pointer is \<open>None\<close>.
\<close>

record StorageService =
  svc_ReadAllRecord :: "go_int \<Rightarrow> error + Storage list"
  svc_ReadRecord :: "go_int \<Rightarrow> go_int \<Rightarrow> error + Storage option"
  svc_WriteRecord :: "Storage \<Rightarrow> error option"
  svc_DeleteRecord :: "go_int \<Rightarrow> go_int \<Rightarrow> error option"

text \<open>
  Modelled from the spec: \<open>services.NewStorageService\<close> is not among the sources. The spec
  has the handlers call the operations of the storage collaborator directly, so each
  operation of the service delegates to the repository; create and delete report the
  fault of the store.
\<close>

definition NewStorageService :: "DB \<Rightarrow> StorageService" where
  "NewStorageService repo =
     \<lparr>svc_ReadAllRecord = DB_ReadAllRecord repo,
      svc_ReadRecord = DB_ReadRecord repo,
      svc_WriteRecord = (\<lambda>doc. db_fault repo),
      svc_DeleteRecord = (\<lambda>id' owner. db_fault repo)\<rparr>"

section \<open>Storage handlers (handler/grpc/storage.go)\<close>

text \<open>
  A unary handler returns a response pointer and a transport error; both may be nil.
  The logger is not modelled: logging does not change what a handler returns.
\<close>

datatype 'a outcome = Returns 'a | Panics panic

record StorageHandler =
  Svc :: StorageService
  MasterKey :: string

definition errorInvalidToken :: string where
  "errorInvalidToken = ''invalid token''"

definition errorCloseStream :: string where
  "errorCloseStream = ''failed close stream''"

definition ReadAllRecord ::
  "StorageHandler \<Rightarrow> call_context \<Rightarrow> ReadAllRecordResponse option \<times> error option" where
  "ReadAllRecord s ctx =
     (let resp = \<lparr>ReadAll_Units = [], ReadAll_Error = []\<rparr> in
      case GetTokenFromContext ctx of
        (token, ok) \<Rightarrow>
          if \<not> ok then (Some (resp\<lparr>ReadAll_Error := errorInvalidToken\<rparr>), None)
          else (case svc_ReadAllRecord (Svc s) (claims_ID token) of
                  Inl err \<Rightarrow> (Some (resp\<lparr>ReadAll_Error := ''failed get all records''\<rparr>), None)
                | Inr rec \<Rightarrow>
                    (let respSlice =
                           map (\<lambda>v. \<lparr>Unit_Id = ucast (Storage_ID v), Unit_Name = Storage_Name v,
                                     Unit_Type = Storage_Type v,
                                     Unit_Owner = ucast (Storage_Owner v)\<rparr>) rec
                     in (Some (resp\<lparr>ReadAll_Units := respSlice\<rparr>), None))))"

definition ReadRecord ::
  "aead \<Rightarrow> StorageHandler \<Rightarrow> call_context \<Rightarrow> int32 \<Rightarrow>
     (ReadRecordResponse option \<times> error option) outcome" where
  "ReadRecord A s ctx in_Id =
     (let resp = \<lparr>Read_Name = [], Read_Type = [], Read_Data = [], Read_Error = []\<rparr> in
      case GetTokenFromContext ctx of
        (token, ok) \<Rightarrow>
          if \<not> ok then Returns (Some (resp\<lparr>Read_Error := errorInvalidToken\<rparr>), None)
          else (case svc_ReadRecord (Svc s) (scast in_Id) (claims_ID token) of
                  Inl err \<Rightarrow> Returns (Some (resp\<lparr>Read_Error := ''failed read record''\<rparr>), None)
                | Inr None \<Rightarrow> Returns (Some (resp\<lparr>Read_Error := ''record not found''\<rparr>), None)
                | Inr (Some rec) \<Rightarrow>
                    (case decryptionData A (MasterKey s) (Storage_Key rec) (Storage_Value rec) of
                       Panic p \<Rightarrow> Panics p
                     | Err err \<Rightarrow>
                         Returns (Some (resp\<lparr>Read_Error := ''failed decrypt data''\<rparr>), None)
                     | Ok data \<Rightarrow>
                         Returns (Some (resp\<lparr>Read_Name := Storage_Name rec,
                                               Read_Type := Storage_Type rec,
                                               Read_Data := data\<rparr>), None))))"

definition DeleteRecord ::
  "StorageHandler \<Rightarrow> call_context \<Rightarrow> int32 \<Rightarrow> DeleteRecordResponse option \<times> error option" where
  "DeleteRecord s ctx in_Id =
     (let resp = \<lparr>Delete_Error = []\<rparr> in
      case GetTokenFromContext ctx of
        (token, ok) \<Rightarrow>
          if \<not> ok then (Some (resp\<lparr>Delete_Error := errorInvalidToken\<rparr>), None)
          else (case svc_DeleteRecord (Svc s) (scast in_Id) (claims_ID token) of
                  Some err \<Rightarrow> (Some (resp\<lparr>Delete_Error := ''failed delete record''\<rparr>), None)
                | None \<Rightarrow> (Some resp, None)))"

section \<open>The upload stream\<close>

text \<open>
  A client-streaming call: \<open>Recv\<close> takes the next pending event, a chunk or a receive
  error, and returns \<open>io.EOF\<close> once the client has closed its side and nothing is pending.
  \<open>SendAndClose\<close> records the response it was given; its result is the next scripted
  one, nil when the script is used up.
\<close>

datatype recv = RecvChunk WriteRecordRequest | RecvError error

record stream =
  stream_Context :: call_context
  stream_incoming :: "recv list"
  stream_closeResults :: "error option list"
  stream_sent :: "WriteRecordResponse list"

definition Recv :: "stream \<Rightarrow> (WriteRecordRequest option \<times> error option) \<times> stream" where
  "Recv st =
     (case stream_incoming st of
        [] \<Rightarrow> ((None, Some EOF), st)
      | RecvChunk c # rest \<Rightarrow> ((Some c, None), st\<lparr>stream_incoming := rest\<rparr>)
      | RecvError err # rest \<Rightarrow> ((None, Some err), st\<lparr>stream_incoming := rest\<rparr>))"

definition SendAndClose :: "stream \<Rightarrow> WriteRecordResponse \<Rightarrow> error option \<times> stream" where
  "SendAndClose st resp =
     (case stream_closeResults st of
        [] \<Rightarrow> (None, st\<lparr>stream_sent := stream_sent st @ [resp]\<rparr>)
      | r # rest \<Rightarrow>
          (r, st\<lparr>stream_sent := stream_sent st @ [resp], stream_closeResults := rest\<rparr>))"

text \<open>\<^verbatim>\<open>bytes.Buffer.Write\<close> appends and always returns a nil error.\<close>

definition buffer_Write :: "bytes \<Rightarrow> bytes \<Rightarrow> bytes \<times> error option" where
  "buffer_Write buffer p = (buffer @ p, None)"

section \<open>WriteRecord (handler/grpc/storage.go)\<close>

text \<open>
  The local variables of the handler, the stream, and the units handed to
  \<open>Svc.WriteRecord\<close> so far.
\<close>

record wr_state =
  wr_resp :: WriteRecordResponse
  wr_fileName :: string
  wr_fileType :: string
  wr_buffer :: bytes
  wr_stream :: stream
  wr_written :: "Storage list"

text \<open>
  The block the handler repeats at every failure: set the error text, call
  \<open>SendAndClose\<close>, and return from the handler only if closing failed; otherwise
  execution goes on with the statement after the block.
\<close>

definition failWith :: "string \<Rightarrow> wr_state \<Rightarrow> (error \<times> wr_state) + wr_state" where
  "failWith msg st =
     (let resp = (wr_resp st)\<lparr>Write_Error := msg\<rparr> in
      case SendAndClose (wr_stream st) resp of
        (Some err, stream') \<Rightarrow>
          Inl (Wrap errorCloseStream err, st\<lparr>wr_resp := resp, wr_stream := stream'\<rparr>)
      | (None, stream') \<Rightarrow> Inr (st\<lparr>wr_resp := resp, wr_stream := stream'\<rparr>))"

text \<open>One pass through the body of the \<open>for\<close> loop.\<close>

datatype iteration = Return error wr_state | Break wr_state | Continue wr_state

definition storeChunk :: "WriteRecordRequest option \<Rightarrow> wr_state \<Rightarrow> iteration" where
  "storeChunk chunk st =
     (let st1 = (if wr_fileName st = [] then st\<lparr>wr_fileName := GetName chunk\<rparr> else st);
          st2 = (if wr_fileType st1 = [] then st1\<lparr>wr_fileType := GetType chunk\<rparr> else st1)
      in case buffer_Write (wr_buffer st2) (GetData chunk) of
           (buffer', Some err) \<Rightarrow>
             (case failWith ''failed write chunk to buffer'' (st2\<lparr>wr_buffer := buffer'\<rparr>) of
                Inl (cerr, st3) \<Rightarrow> Return cerr st3
              | Inr st3 \<Rightarrow> Continue st3)
         | (buffer', None) \<Rightarrow> Continue (st2\<lparr>wr_buffer := buffer'\<rparr>))"

definition loopBody :: "wr_state \<Rightarrow> iteration" where
  "loopBody st =
     (case Recv (wr_stream st) of
        ((chunk, err), stream') \<Rightarrow>
          (let st1 = st\<lparr>wr_stream := stream'\<rparr> in
           case err of
             None \<Rightarrow> storeChunk chunk st1
           | Some e \<Rightarrow>
               if errors_Is e EOF then Break st1
               else (case failWith ''failed recive chunk'' st1 of
                       Inl (cerr, st2) \<Rightarrow> Return cerr st2
                     | Inr st2 \<Rightarrow> storeChunk chunk st2)))"

function receiveLoop :: "wr_state \<Rightarrow> (error \<times> wr_state) + wr_state" where
  "receiveLoop st =
     (case loopBody st of
        Return err st' \<Rightarrow> Inl (err, st')
      | Break st' \<Rightarrow> Inr st'
      | Continue st' \<Rightarrow> receiveLoop st')"
  by pat_completeness auto
termination
proof (relation "measure (\<lambda>st. length (stream_incoming (wr_stream st)))")
  show "wf (measure (\<lambda>st. length (stream_incoming (wr_stream st))))"
    by simp
next
  fix st st'
  assume "loopBody st = Continue st'"
  then have "length (stream_incoming (wr_stream st')) < length (stream_incoming (wr_stream st))"
    by (auto simp: loopBody_def storeChunk_def failWith_def Recv_def SendAndClose_def
          buffer_Write_def Let_def
        split: list.splits recv.splits option.splits if_splits sum.splits prod.splits)
  then show "(st', st) \<in> measure (\<lambda>st. length (stream_incoming (wr_stream st)))"
    by simp
qed

declare receiveLoop.simps [simp del]

text \<open>
  What follows the encryption block: build the record, hand it to the service, and
  send the response.
\<close>

definition persist ::
  "StorageHandler \<Rightarrow> JWTclaims \<Rightarrow> string \<Rightarrow> string \<Rightarrow> wr_state \<Rightarrow> error option \<times> wr_state" where
  "persist s token data key st =
     (let unit = \<lparr>Storage_ID = 0, Storage_Name = wr_fileName st,
                  Storage_Type = wr_fileType st, Storage_Value = data,
                  Storage_Key = key, Storage_Owner = claims_ID token\<rparr>;
          st1 = st\<lparr>wr_written := wr_written st @ [unit]\<rparr>
      in case (case svc_WriteRecord (Svc s) unit of
                 Some err \<Rightarrow> failWith ''failed write record'' st1
               | None \<Rightarrow> Inr st1) of
           Inl (cerr, st2) \<Rightarrow> (Some cerr, st2)
         | Inr st2 \<Rightarrow>
             (case SendAndClose (wr_stream st2) (wr_resp st2) of
                (Some err, stream') \<Rightarrow>
                  (Some (Wrap errorCloseStream err), st2\<lparr>wr_stream := stream'\<rparr>)
              | (None, stream') \<Rightarrow> (None, st2\<lparr>wr_stream := stream'\<rparr>)))"

definition WriteRecord ::
  "aead \<Rightarrow> StorageHandler \<Rightarrow> bytes \<Rightarrow> stream \<Rightarrow> (error option \<times> wr_state) outcome" where
  "WriteRecord A s tape stream0 =
     (let st0 = \<lparr>wr_resp = \<lparr>Write_Error = []\<rparr>, wr_fileName = [], wr_fileType = [],
                 wr_buffer = [], wr_stream = stream0, wr_written = []\<rparr> in
      case GetTokenFromContext (stream_Context stream0) of
        (token, ok) \<Rightarrow>
          (case (if \<not> ok then failWith errorInvalidToken st0 else Inr st0) of
             Inl (cerr, st1) \<Rightarrow> Returns (Some cerr, st1)
           | Inr st1 \<Rightarrow>
               (case receiveLoop st1 of
                  Inl (cerr, st2) \<Rightarrow> Returns (Some cerr, st2)
                | Inr st2 \<Rightarrow>
                    (case encryptionData A (MasterKey s) (wr_buffer st2) tape of
                       Panic p \<Rightarrow> Panics p
                     | Err err \<Rightarrow>
                         (case failWith ''failed encrypt data'' st2 of
                            Inl (cerr, st3) \<Rightarrow> Returns (Some cerr, st3)
                          | Inr st3 \<Rightarrow> Returns (persist s token [] [] st3))
                     | Ok ((data, key), tape') \<Rightarrow> Returns (persist s token data key st2)))))"

section \<open>User handlers (Register, Login, getJWT)\<close>

text \<open>
  The password hash, the token signature and the clock come from outside the
  repository and are parameters. Times are nanoseconds since the epoch. Each handler
  also yields the list of collaborator calls it made, in order.
\<close>

text \<open>
  Modelled from the spec: \<open>services.UserService\<close> is not among the sources; it is the
  results of the collaborator's \<open>createUser\<close> and \<open>findUserByLogin\<close>.
\<close>

record UserService =
  svc_CreateUser :: "string \<Rightarrow> string \<Rightarrow> error + User"
  svc_FindUserByLogin :: "string \<Rightarrow> error + User option"

record user_env =
  bcrypt_GenerateFromPassword :: "bytes \<Rightarrow> error + bytes"
  bcrypt_CompareHashAndPassword :: "bytes \<Rightarrow> bytes \<Rightarrow> error option"
  jwt_SignedString :: "bytes \<Rightarrow> JWTclaims \<Rightarrow> error + string"
  time_Now :: int

record UserHandler =
  UserSvc :: UserService
  JWTkey :: string

datatype call =
    Call_GenerateFromPassword bytes
  | Call_CreateUser string string
  | Call_FindUserByLogin string
  | Call_CompareHashAndPassword bytes bytes
  | Call_SignedString bytes JWTclaims

definition Minute :: int where
  "Minute = 60 * 1000000000"

text \<open>\<^verbatim>\<open>jwt.NewNumericDate\<close> truncates to whole seconds; the claim holds seconds.\<close>

definition NewNumericDate :: "int \<Rightarrow> int" where
  "NewNumericDate t = t div 1000000000"

definition pgerrcode_UniqueViolation :: string where
  "pgerrcode_UniqueViolation = ''23505''"

definition getJWT :: "user_env \<Rightarrow> string \<Rightarrow> go_int \<Rightarrow> string \<Rightarrow> error + string" where
  "getJWT E jwtKey id' login =
     (let DefaultSession = 30;
          DefaultExpTime = time_Now E + DefaultSession * Minute;
          claims = \<lparr>claims_ID = id', claims_Login = login,
                    claims_ExpiresAt = Some (NewNumericDate DefaultExpTime)\<rparr>
      in case jwt_SignedString E (bytes_of_string jwtKey) claims of
           Inl err \<Rightarrow> Inl (Wrap ''failed signed jwt'' err)
         | Inr tokenString \<Rightarrow> Inr tokenString)"

definition getJWT_call :: "user_env \<Rightarrow> string \<Rightarrow> go_int \<Rightarrow> string \<Rightarrow> call" where
  "getJWT_call E jwtKey id' login =
     Call_SignedString (bytes_of_string jwtKey)
       \<lparr>claims_ID = id', claims_Login = login,
        claims_ExpiresAt = Some (NewNumericDate (time_Now E + 30 * Minute))\<rparr>"

definition Register ::
  "user_env \<Rightarrow> UserHandler \<Rightarrow> RegiserRequest \<Rightarrow>
     (RegisterResponse option \<times> error option) \<times> call list" where
  "Register E h req =
     (let res = \<lparr>Register_Jwt = [], Register_Error = []\<rparr> in
      if Register_Login req = [] \<or> Register_Password req = []
      then ((Some (res\<lparr>Register_Error := ''login or password incorrect''\<rparr>), None), [])
      else
        (let pw = bytes_of_string (Register_Password req);
             c1 = [Call_GenerateFromPassword pw]
         in case bcrypt_GenerateFromPassword E pw of
              Inl err \<Rightarrow> ((Some (res\<lparr>Register_Error := ''internal server error''\<rparr>), None), c1)
            | Inr hash \<Rightarrow>
                (let c2 = c1 @ [Call_CreateUser (Register_Login req) (string_of_bytes hash)] in
                 case svc_CreateUser (UserSvc h) (Register_Login req) (string_of_bytes hash) of
                   Inl err \<Rightarrow>
                     ((Some (res\<lparr>Register_Error :=
                               (if errors_As_PgError err = Some pgerrcode_UniqueViolation
                                then ''this user exists'' else ''failed create user'')\<rparr>), None), c2)
                 | Inr user \<Rightarrow>
                     (let c3 = c2 @ [getJWT_call E (JWTkey h) (User_ID user) (User_Login user)] in
                      case getJWT E (JWTkey h) (User_ID user) (User_Login user) of
                        Inl err \<Rightarrow>
                          ((Some (res\<lparr>Register_Error := ''failed create jwt token''\<rparr>), None), c3)
                      | Inr token \<Rightarrow> ((Some (res\<lparr>Register_Jwt := token\<rparr>), None), c3)))))"

definition Login ::
  "user_env \<Rightarrow> UserHandler \<Rightarrow> LoginRequest \<Rightarrow>
     (LoginResponse option \<times> error option) \<times> call list" where
  "Login E h req =
     (let res = \<lparr>Login_Jwt = [], Login_Error = []\<rparr>;
          c1 = [Call_FindUserByLogin (Login_Login req)]
      in case svc_FindUserByLogin (UserSvc h) (Login_Login req) of
           Inl err \<Rightarrow> ((Some (res\<lparr>Login_Error := ''failed get user''\<rparr>), None), c1)
         | Inr None \<Rightarrow> ((Some (res\<lparr>Login_Error := ''user not found''\<rparr>), None), c1)
         | Inr (Some user) \<Rightarrow>
             (let hash = bytes_of_string (User_Hash user);
                  pw = bytes_of_string (Login_Password req);
                  c2 = c1 @ [Call_CompareHashAndPassword hash pw]
              in case bcrypt_CompareHashAndPassword E hash pw of
                   Some err \<Rightarrow>
                     ((Some (res\<lparr>Login_Error := ''login or password incorrect''\<rparr>), None), c2)
                 | None \<Rightarrow>
                     (let c3 = c2 @ [getJWT_call E (JWTkey h) (User_ID user) (User_Login user)] in
                      case getJWT E (JWTkey h) (User_ID user) (User_Login user) of
                        Inl err \<Rightarrow>
                          ((Some (res\<lparr>Login_Error := ''failed create jwt token''\<rparr>), None), c3)
                      | Inr token \<Rightarrow> ((Some (res\<lparr>Login_Jwt := token\<rparr>), None), c3))))"

section \<open>Properties stated in the words of the specification\<close>

text \<open>"First non-empty value wins": the first element that is not the empty string.\<close>

definition firstNonEmpty :: "string list \<Rightarrow> string" where
  "firstNonEmpty xs = (case filter (\<lambda>x. x \<noteq> []) xs of [] \<Rightarrow> [] | x # _ \<Rightarrow> x)"

text \<open>
  The record an upload is to persist: owner from the identity claim, name and kind the
  first non-empty ones among the chunks, and the two encrypted strings.
\<close>

definition uploadedRecord ::
  "JWTclaims \<Rightarrow> WriteRecordRequest list \<Rightarrow> string \<Rightarrow> string \<Rightarrow> Storage" where
  "uploadedRecord token chunks data key =
     \<lparr>Storage_ID = 0,
      Storage_Name = firstNonEmpty (map Chunk_Name chunks),
      Storage_Type = firstNonEmpty (map Chunk_Type chunks),
      Storage_Value = data, Storage_Key = key, Storage_Owner = claims_ID token\<rparr>"

text \<open>
  A unary call is answered when the response is non-nil and the transport error is nil;
  it reports a business error when, in addition, the error field of the response is
  populated.
\<close>

definition answered :: "'r option \<times> error option \<Rightarrow> bool" where
  "answered out = (case out of (Some resp, None) \<Rightarrow> True | _ \<Rightarrow> False)"

definition business_error :: "'r option \<times> error option \<Rightarrow> ('r \<Rightarrow> string) \<Rightarrow> bool" where
  "business_error out err_of = (case out of (Some resp, None) \<Rightarrow> err_of resp \<noteq> [] | _ \<Rightarrow> False)"

text \<open>The failures of each unary handler: what its collaborators can report.\<close>

definition ReadAllRecord_fails :: "StorageHandler \<Rightarrow> call_context \<Rightarrow> bool" where
  "ReadAllRecord_fails s ctx =
     (case ctx of
        None \<Rightarrow> True
      | Some token \<Rightarrow>
          (case svc_ReadAllRecord (Svc s) (claims_ID token) of Inl err \<Rightarrow> True | Inr rec \<Rightarrow> False))"

definition ReadRecord_fails :: "aead \<Rightarrow> StorageHandler \<Rightarrow> call_context \<Rightarrow> int32 \<Rightarrow> bool" where
  "ReadRecord_fails A s ctx in_Id =
     (case ctx of
        None \<Rightarrow> True
      | Some token \<Rightarrow>
          (case svc_ReadRecord (Svc s) (scast in_Id) (claims_ID token) of
             Inl err \<Rightarrow> True
           | Inr None \<Rightarrow> True
           | Inr (Some rec) \<Rightarrow>
               (case decryptionData A (MasterKey s) (Storage_Key rec) (Storage_Value rec) of
                  Err err \<Rightarrow> True
                | _ \<Rightarrow> False)))"

definition DeleteRecord_fails :: "StorageHandler \<Rightarrow> call_context \<Rightarrow> int32 \<Rightarrow> bool" where
  "DeleteRecord_fails s ctx in_Id =
     (case ctx of
        None \<Rightarrow> True
      | Some token \<Rightarrow> svc_DeleteRecord (Svc s) (scast in_Id) (claims_ID token) \<noteq> None)"

definition Register_fails :: "user_env \<Rightarrow> UserHandler \<Rightarrow> RegiserRequest \<Rightarrow> bool" where
  "Register_fails E h req =
     (Register_Login req = [] \<or> Register_Password req = [] \<or>
      (case bcrypt_GenerateFromPassword E (bytes_of_string (Register_Password req)) of
         Inl err \<Rightarrow> True
       | Inr hash \<Rightarrow>
           (case svc_CreateUser (UserSvc h) (Register_Login req) (string_of_bytes hash) of
              Inl err \<Rightarrow> True
            | Inr user \<Rightarrow>
                (case getJWT E (JWTkey h) (User_ID user) (User_Login user) of
                   Inl err \<Rightarrow> True
                 | Inr token \<Rightarrow> False))))"

definition Login_fails :: "user_env \<Rightarrow> UserHandler \<Rightarrow> LoginRequest \<Rightarrow> bool" where
  "Login_fails E h req =
     (case svc_FindUserByLogin (UserSvc h) (Login_Login req) of
        Inl err \<Rightarrow> True
      | Inr None \<Rightarrow> True
      | Inr (Some user) \<Rightarrow>
          (case bcrypt_CompareHashAndPassword E (bytes_of_string (User_Hash user))
                  (bytes_of_string (Login_Password req)) of
             Some err \<Rightarrow> True
           | None \<Rightarrow>
               (case getJWT E (JWTkey h) (User_ID user) (User_Login user) of
                  Inl err \<Rightarrow> True
                | Inr token \<Rightarrow> False)))"

section \<open>Sample inputs\<close>

text \<open>
  The values of the repository's integration test: master key, the claims of the test
  token, an uploaded text; a tape of forty random bytes; stores that are empty, hold the
  uploaded text, fail, or hold a record without encrypted content; and user-side
  collaborators that refuse every request.
\<close>

definition testMasterKey :: string where
  "testMasterKey = ''1234567812345678''"

definition testToken :: JWTclaims where
  "testToken = \<lparr>claims_ID = 1, claims_Login = ''test'', claims_ExpiresAt = None\<rparr>"

definition otherToken :: JWTclaims where
  "otherToken = \<lparr>claims_ID = 2, claims_Login = ''other'', claims_ExpiresAt = None\<rparr>"

definition testTape :: bytes where
  "testTape = [1,2,3,4,5,6,7,8,9,10,11,12,13,14,15,16,17,18,19,20,21,22,23,24,25,26,27,28,
               29,30,31,32,33,34,35,36,37,38,39,40]"

definition testChunk :: WriteRecordRequest where
  "testChunk = \<lparr>Chunk_Name = ''test'', Chunk_Type = ''text'', Chunk_Data = [116,101,115,116]\<rparr>"

definition testRecord :: Storage where
  "testRecord =
     \<lparr>Storage_ID = 1, Storage_Name = ''test'', Storage_Type = ''text'',
      Storage_Value = ''HR4fICEiIyQlJico*UEFXUCQkJCQkJCQkJCQkJCQkJCQ='',
      Storage_Key = ''ERITFBUWFxgZGhsc*DQ4PCAkKCwQFBgcAAQIDHAwMDAwMDAwMDAwMDAwMDAw='',
      Storage_Owner = 1\<rparr>"

definition emptyStore :: DB where
  "emptyStore = \<lparr>db_storages = [], db_fault = None\<rparr>"

definition oneRecordStore :: DB where
  "oneRecordStore = \<lparr>db_storages = [testRecord], db_fault = None\<rparr>"

definition faultyStore :: DB where
  "faultyStore = \<lparr>db_storages = [], db_fault = Some (ErrorString ''connection refused'')\<rparr>"

definition brokenStore :: DB where
  "brokenStore =
     \<lparr>db_storages =
        [\<lparr>Storage_ID = 1, Storage_Name = ''test'', Storage_Type = ''text'',
          Storage_Value = [], Storage_Key = [], Storage_Owner = 1\<rparr>],
      db_fault = None\<rparr>"

definition testStream :: stream where
  "testStream =
     \<lparr>stream_Context = Some testToken, stream_incoming = [RecvChunk testChunk],
      stream_closeResults = [], stream_sent = []\<rparr>"

definition twoChunkStream :: stream where
  "twoChunkStream =
     \<lparr>stream_Context = Some testToken,
      stream_incoming =
        [RecvChunk \<lparr>Chunk_Name = [], Chunk_Type = ''text'', Chunk_Data = [97,98,99]\<rparr>,
         RecvChunk \<lparr>Chunk_Name = ''n'', Chunk_Type = ''file'', Chunk_Data = [100,101,102]\<rparr>],
      stream_closeResults = [], stream_sent = []\<rparr>"

definition refusingEnv :: user_env where
  "refusingEnv =
     \<lparr>bcrypt_GenerateFromPassword = (\<lambda>password. Inl (ErrorString ''refused'')),
      bcrypt_CompareHashAndPassword = (\<lambda>hash password. Some (ErrorString ''refused'')),
      jwt_SignedString = (\<lambda>key claims. Inl (ErrorString ''refused'')),
      time_Now = 0\<rparr>"

definition refusingUsers :: UserHandler where
  "refusingUsers =
     \<lparr>UserSvc = \<lparr>svc_CreateUser = (\<lambda>login hash. Inl (ErrorString ''refused'')),
                  svc_FindUserByLogin = (\<lambda>login. Inl (ErrorString ''refused''))\<rparr>,
      JWTkey = ''12345''\<rparr>"

section \<open>Base64: decoding inverts encoding\<close>

lemma length_encodeStd: "length encodeStd = 64"
  by (simp add: encodeStd_def)

lemma distinct_encodeStd: "distinct encodeStd"
  by (simp add: encodeStd_def)

lemma indexByte_nth:
  "distinct xs \<Longrightarrow> i < length xs \<Longrightarrow> indexByte xs (xs ! i) n = Some (n + i)"
proof (induction xs arbitrary: i n)
  case Nil
  then show ?case by simp
next
  case (Cons x xs)
  show ?case
  proof (cases i)
    case 0
    then show ?thesis by simp
  next
    case (Suc j)
    with Cons.prems have "xs ! j \<in> set xs" "x \<notin> set xs" by auto
    then have "x \<noteq> xs ! j" by auto
    with Cons Suc show ?thesis by simp
  qed
qed

lemma decodeMap_enc6: "decodeMap (enc6 i) = Some (i mod 64)"
  using indexByte_nth [of encodeStd "i mod 64" 0]
  by (simp add: decodeMap_def enc6_def length_encodeStd distinct_encodeStd)

lemma enc6_in_alphabet: "enc6 i \<in> set encodeStd"
  by (simp add: enc6_def length_encodeStd)

lemma set_EncodeToString: "set (EncodeToString b) \<subseteq> set encodeStd \<union> {CHR ''=''}"
  by (induction b rule: EncodeToString.induct) (auto simp: Let_def enc6_in_alphabet)

lemma star_not_in_alphabet: "CHR ''*'' \<notin> set encodeStd \<union> {CHR ''=''}"
  by (simp add: encodeStd_def)

lemma newline_not_in_alphabet:
  "CHR 0x0A \<notin> set encodeStd \<union> {CHR ''=''}" "CHR 0x0D \<notin> set encodeStd \<union> {CHR ''=''}"
  by (simp_all add: encodeStd_def)

lemma decodeMap_pad: "decodeMap CHR ''='' = None"
  by (simp add: decodeMap_def encodeStd_def)

lemma recompose24:
  fixes v :: nat
  assumes "v < 16777216"
  shows "(v div 262144) mod 64 * 262144 + (v div 4096) mod 64 * 4096
           + (v div 64) mod 64 * 64 + v mod 64 = v"
proof -
  have a: "v mod 4096 = 64 * (v div 64 mod 64) + v mod 64"
    using mod_mult2_eq [of v 64 64] by simp
  have b: "v mod 262144 = 4096 * (v div 4096 mod 64) + v mod 4096"
    using mod_mult2_eq [of v 4096 64] by simp
  have c: "v mod 16777216 = 262144 * (v div 262144 mod 64) + v mod 262144"
    using mod_mult2_eq [of v 262144 64] by simp
  have "v mod 16777216 = v" using assms by simp
  with a b c show ?thesis by simp
qed

lemma split24:
  fixes a b c :: nat
  assumes "a < 256" "b < 256" "c < 256"
  shows "(a * 65536 + b * 256 + c) div 65536 = a"
    and "(a * 65536 + b * 256 + c) div 256 mod 256 = b"
    and "(a * 65536 + b * 256 + c) mod 256 = c"
    and "a * 65536 + b * 256 + c < 16777216"
proof -
  show "(a * 65536 + b * 256 + c) div 65536 = a" using assms by simp
  have "(a * 65536 + b * 256 + c) div 256 = a * 256 + b" using assms by simp
  then show "(a * 65536 + b * 256 + c) div 256 mod 256 = b" using assms by simp
  have e: "a * 65536 + b * 256 + c = (a * 256 + b) * 256 + c" by simp
  have "(a * 65536 + b * 256 + c) mod 256 = ((a * 256 + b) * 256 + c) mod 256"
    by (simp only: e)
  also have "\<dots> = c mod 256" by (rule mod_mult_self3)
  also have "\<dots> = c" using assms by simp
  finally show "(a * 65536 + b * 256 + c) mod 256 = c" .
  show "a * 65536 + b * 256 + c < 16777216" using assms by simp
qed

lemma byte_of_nat_eq:
  assumes "n mod 256 = unat (b :: byte)"
  shows "(of_nat n :: byte) = b"
proof -
  have "unat (of_nat n :: byte) = n mod 256" by (simp add: unat_of_nat)
  with assms show ?thesis by (simp add: word_unat_eq_iff)
qed

lemma unat_byte_less: "unat (b :: byte) < 256"
  using unsigned_less [of b, where ?'a = nat] by simp

lemma decode_quantum3:
  fixes a b c :: byte
  defines "v \<equiv> unat a * 65536 + unat b * 256 + unat c"
  shows "bytes_of_val 3 ((v div 262144) mod 64 * 262144 + (v div 4096) mod 64 * 4096
           + (v div 64) mod 64 * 64 + v mod 64) = [a, b, c]"
proof -
  note s = split24 [OF unat_byte_less [of a] unat_byte_less [of b] unat_byte_less [of c]]
  have r: "(v div 262144) mod 64 * 262144 + (v div 4096) mod 64 * 4096
           + (v div 64) mod 64 * 64 + v mod 64 = v"
    unfolding v_def by (rule recompose24) (rule s(4))
  have "(of_nat (v div 65536) :: byte) = a"
    by (rule byte_of_nat_eq) (simp only: v_def s(1) unat_byte_less mod_less)
  moreover have "(of_nat (v div 256) :: byte) = b"
    by (rule byte_of_nat_eq) (simp only: v_def s(2))
  moreover have "(of_nat v :: byte) = c"
    by (rule byte_of_nat_eq) (simp only: v_def s(3))
  ultimately show ?thesis by (simp only: r bytes_of_val_def) simp
qed

lemma low_digits_zero1:
  "(A * 65536) mod 64 = (0::nat)" "(A * 65536) div 64 mod 64 = (0::nat)"
proof -
  have e: "A * 65536 = (A * 1024) * 64" by simp
  show "(A * 65536) mod 64 = (0::nat)" by (simp only: e mod_mult_self2_is_0)
  have "(A * 65536) div 64 = A * 1024" by simp
  moreover have "A * 1024 = (A * 16) * 64" by simp
  ultimately show "(A * 65536) div 64 mod 64 = (0::nat)" by (simp only: mod_mult_self2_is_0)
qed

lemma low_digits_zero2: "(A * 65536 + B * 256) mod 64 = (0::nat)"
proof -
  have e: "A * 65536 + B * 256 = (A * 1024 + B * 4) * 64" by simp
  show ?thesis by (simp only: e mod_mult_self2_is_0)
qed

lemma decode_quantum1:
  fixes a :: byte
  defines "v \<equiv> unat a * 65536"
  shows "bytes_of_val 1 ((v div 262144) mod 64 * 262144 + (v div 4096) mod 64 * 4096) = [a]"
proof -
  have "bytes_of_val 3
         (((unat a * 65536 + unat (0::byte) * 256 + unat (0::byte)) div 262144) mod 64 * 262144
         + ((unat a * 65536 + unat (0::byte) * 256 + unat (0::byte)) div 4096) mod 64 * 4096
         + ((unat a * 65536 + unat (0::byte) * 256 + unat (0::byte)) div 64) mod 64 * 64
         + (unat a * 65536 + unat (0::byte) * 256 + unat (0::byte)) mod 64) = [a, 0, 0]"
    by (rule decode_quantum3)
  then have "bytes_of_val 3 ((v div 262144) mod 64 * 262144 + (v div 4096) mod 64 * 4096)
               = [a, 0, 0]"
    by (simp add: v_def low_digits_zero1)
  then show ?thesis by (simp add: bytes_of_val_def)
qed

lemma decode_quantum2:
  fixes a b :: byte
  defines "v \<equiv> unat a * 65536 + unat b * 256"
  shows "bytes_of_val 2 ((v div 262144) mod 64 * 262144 + (v div 4096) mod 64 * 4096
           + (v div 64) mod 64 * 64) = [a, b]"
proof -
  have "bytes_of_val 3
         (((unat a * 65536 + unat b * 256 + unat (0::byte)) div 262144) mod 64 * 262144
         + ((unat a * 65536 + unat b * 256 + unat (0::byte)) div 4096) mod 64 * 4096
         + ((unat a * 65536 + unat b * 256 + unat (0::byte)) div 64) mod 64 * 64
         + (unat a * 65536 + unat b * 256 + unat (0::byte)) mod 64) = [a, b, 0]"
    by (rule decode_quantum3)
  then have "bytes_of_val 3 ((v div 262144) mod 64 * 262144 + (v div 4096) mod 64 * 4096
           + (v div 64) mod 64 * 64) = [a, b, 0]"
    by (simp add: v_def low_digits_zero2)
  then show ?thesis by (simp add: bytes_of_val_def)
qed

lemma decodeQuanta_EncodeToString: "decodeQuanta (EncodeToString b) = Some b"
proof (induction b rule: EncodeToString.induct)
  case 1
  show ?case by simp
next
  case (2 a)
  show ?case
    using decode_quantum1 [of a]
    by (simp add: Let_def decodeMap_enc6 decodeMap_pad)
next
  case (3 a b)
  show ?case
    using decode_quantum2 [of a b]
    by (simp add: Let_def decodeMap_enc6 decodeMap_pad)
next
  case (4 a b c rest)
  show ?case
    using decode_quantum3 [of a b c] 4
    by (simp add: Let_def decodeMap_enc6)
qed

lemma filter_EncodeToString:
  "filter (\<lambda>c. c \<noteq> CHR 0x0A \<and> c \<noteq> CHR 0x0D) (EncodeToString b) = EncodeToString b"
proof -
  have "\<forall>c \<in> set (EncodeToString b). c \<noteq> CHR 0x0A \<and> c \<noteq> CHR 0x0D"
    using set_EncodeToString [of b] newline_not_in_alphabet by blast
  then show ?thesis by (simp only: filter_True)
qed

lemma DecodeString_EncodeToString: "DecodeString (EncodeToString b) = Inr b"
  by (simp add: DecodeString_def filter_EncodeToString decodeQuanta_EncodeToString)

lemma star_notin_EncodeToString: "CHR ''*'' \<notin> set (EncodeToString b)"
  using set_EncodeToString [of b] star_not_in_alphabet by blast

lemma strings_Split_no_sep: "sep \<notin> set s \<Longrightarrow> strings_Split s sep = [s]"
  by (induction s) auto

lemma strings_Split_append:
  "sep \<notin> set s \<Longrightarrow> strings_Split (s @ sep # t) sep = s # strings_Split t sep"
  by (induction s) auto

lemma strings_Split_encoded:
  "strings_Split (EncodeToString a @ ''*'' @ EncodeToString b) (CHR ''*'')
     = [EncodeToString a, EncodeToString b]"
  by (simp add: strings_Split_append strings_Split_no_sep star_notin_EncodeToString)

section \<open>Envelope encryption\<close>

lemma generateRandom_Inr:
  "generateRandom n tape = (Inr b, tape') \<Longrightarrow>
     length b = n \<and> b = take n tape \<and> tape' = drop n tape"
  by (auto simp: generateRandom_def rand_Read_def split: if_splits)

lemma encrypt_Ok:
  assumes "encrypt A key plaintext tape = Ok (s, tape')"
  shows "\<exists>nonce. length nonce = NonceSize
           \<and> (length (adjustKeySize key sizeRandomKey) = 16
                \<or> length (adjustKeySize key sizeRandomKey) = 24
                \<or> length (adjustKeySize key sizeRandomKey) = 32)
           \<and> s = EncodeToString nonce @ ''*'' @
                 EncodeToString (gcm_seal A (adjustKeySize key sizeRandomKey) nonce plaintext)"
  using assms
  by (auto simp: encrypt_def Let_def aes_NewCipher_def cipher_NewGCM_def Seal_def
           dest!: generateRandom_Inr
           split: if_splits sum.splits prod.splits result.splits)

lemma decrypt_encrypt:
  assumes "gcm_correct A" and "encrypt A key plaintext tape = Ok (s, tape')"
  shows "decrypt A key s = Ok plaintext"
proof -
  from encrypt_Ok [OF assms(2)] obtain nonce where
    n: "length nonce = NonceSize"
    and k: "length (adjustKeySize key sizeRandomKey) = 16
              \<or> length (adjustKeySize key sizeRandomKey) = 24
              \<or> length (adjustKeySize key sizeRandomKey) = 32"
    and s: "s = EncodeToString nonce @ ''*'' @
                 EncodeToString (gcm_seal A (adjustKeySize key sizeRandomKey) nonce plaintext)"
    by blast
  have o: "gcm_open A (adjustKeySize key sizeRandomKey) nonce
             (gcm_seal A (adjustKeySize key sizeRandomKey) nonce plaintext) = Some plaintext"
    using assms(1) n k unfolding gcm_correct_def by blast
  have sp: "strings_Split s (CHR ''*'') = [EncodeToString nonce,
               EncodeToString (gcm_seal A (adjustKeySize key sizeRandomKey) nonce plaintext)]"
    unfolding s by (rule strings_Split_encoded)
  show ?thesis
    using k n o
    by (simp add: decrypt_def sp index_def DecodeString_EncodeToString Let_def
          aes_NewCipher_def cipher_NewGCM_def Open_def)
qed

lemma encryptionData_Ok:
  assumes "encryptionData A mk data tape = Ok ((encData, encKey), tape')"
  shows "\<exists>key t1 t2. encrypt A (bytes_of_string mk) key t1 = Ok (encKey, t2)
            \<and> encrypt A key data t2 = Ok (encData, tape')"
  using assms
  by (auto simp: encryptionData_def split: sum.splits prod.splits result.splits)

lemma xor_mask_twice: "(\<lambda>b. b XOR m) \<circ> (\<lambda>b. b XOR (m :: byte)) = id"
  by (rule ext) (simp add: xor.assoc)

lemma gcm_correct_refAead: "gcm_correct refAead"
  by (simp add: gcm_correct_def refAead_def refSeal_def refOpen_def xor_mask_twice)

text \<open>
  With a master key of at least 16 bytes, 40 random bytes available and a message within
  the cipher's limit, the write path produces a pair.
\<close>

lemma encrypt_succeeds:
  assumes "16 \<le> length key" "12 \<le> length tape" "length plaintext \<le> gcmMaxPlaintext"
  shows "\<exists>s. encrypt A key plaintext tape = Ok (s, drop 12 tape)"
  using assms
  by (simp add: encrypt_def Let_def adjustKeySize_def sizeRandomKey_def aes_NewCipher_def
        cipher_NewGCM_def generateRandom_def rand_Read_def NonceSize_def Seal_def)

lemma encryptionData_succeeds:
  assumes "16 \<le> length mk" "40 \<le> length tape" "length data \<le> gcmMaxPlaintext"
  shows "\<exists>encData encKey. encryptionData A mk data tape = Ok ((encData, encKey), drop 40 tape)"
proof -
  have g: "generateRandom sizeRandomKey tape = (Inr (take 16 tape), drop 16 tape)"
    using assms(2) by (simp add: generateRandom_def rand_Read_def sizeRandomKey_def)
  have "16 \<le> gcmMaxPlaintext" by (simp add: gcmMaxPlaintext_def)
  then have "length (take 16 tape) \<le> gcmMaxPlaintext" using assms(2) by simp
  moreover have "16 \<le> length (bytes_of_string mk)"
    using assms(1) by (simp add: bytes_of_string_def)
  moreover have "12 \<le> length (drop 16 tape)" using assms(2) by simp
  ultimately obtain encKey where
    a: "encrypt A (bytes_of_string mk) (take 16 tape) (drop 16 tape)
          = Ok (encKey, drop 12 (drop 16 tape))"
    using encrypt_succeeds by blast
  have "16 \<le> length (take 16 tape)" "12 \<le> length (drop 12 (drop 16 tape))"
    using assms(2) by simp_all
  then obtain encData where
    b: "encrypt A (take 16 tape) data (drop 12 (drop 16 tape))
          = Ok (encData, drop 12 (drop 12 (drop 16 tape)))"
    using encrypt_succeeds assms(3) by blast
  show ?thesis
    using g a b by (simp add: encryptionData_def)
qed

lemma decryptionData_encryptionData:
  assumes "gcm_correct A"
    and "encryptionData A m p tape = Ok ((data, key), tape')"
  shows "decryptionData A m key data = Ok p"
proof -
  from encryptionData_Ok [OF assms(2)] obtain rk t1 t2 where
    a: "encrypt A (bytes_of_string m) rk t1 = Ok (key, t2)"
    and b: "encrypt A rk p t2 = Ok (data, tape')" by blast
  have "decrypt A (bytes_of_string m) key = Ok rk"
    using assms(1) a by (rule decrypt_encrypt)
  moreover have "decrypt A rk data = Ok p"
    using assms(1) b by (rule decrypt_encrypt)
  ultimately show ?thesis by (simp add: decryptionData_def)
qed

text \<open>
  C1. For every plaintext \<open>p\<close> and every master key \<open>m\<close> of 16 bytes or longer, whatever
  record key and nonces the random source delivers: every pair \<open>(data, key)\<close> that the
  write path \<open>encryptionData\<close> returns is turned back into \<open>p\<close> by the read path
  \<open>decryptionData m key data\<close>; and the write path does return such a pair whenever the
  random source has the 40 bytes it draws and the plaintext is within the limit of the
  cipher. The cipher is assumed to open what it sealed.
\<close>

theorem envelope_round_trip:
  assumes "gcm_correct A" and "16 \<le> length m"
  shows "(\<forall>data key tape'.
            encryptionData A m p tape = Ok ((data, key), tape') \<longrightarrow>
            decryptionData A m key data = Ok p)
       \<and> (40 \<le> length tape \<longrightarrow> length p \<le> gcmMaxPlaintext \<longrightarrow>
            (\<exists>data key. encryptionData A m p tape = Ok ((data, key), drop 40 tape)
                      \<and> decryptionData A m key data = Ok p))"
proof (intro conjI allI impI)
  fix data key tape'
  assume "encryptionData A m p tape = Ok ((data, key), tape')"
  with assms(1) show "decryptionData A m key data = Ok p"
    by (rule decryptionData_encryptionData)
next
  assume "40 \<le> length tape" and "length p \<le> gcmMaxPlaintext"
  with assms(2) obtain data key where
    e: "encryptionData A m p tape = Ok ((data, key), drop 40 tape)"
    using encryptionData_succeeds by blast
  have "decryptionData A m key data = Ok p"
    using assms(1) e by (rule decryptionData_encryptionData)
  with e show "\<exists>data key. encryptionData A m p tape = Ok ((data, key), drop 40 tape)
                 \<and> decryptionData A m key data = Ok p"
    by blast
qed

lemma bytes_of_test_master_key:
  "bytes_of_string ''1234567812345678'' = [49,50,51,52,53,54,55,56,49,50,51,52,53,54,55,56]"
  by (simp add: bytes_of_string_def byte_of_char_def)

lemma replicate16: "replicate 16 x = [x,x,x,x,x,x,x,x,x,x,x,x,x,x,x,x]"
  by (simp add: eval_nat_numeral)

lemma encryptionData_example:
  "encryptionData refAead ''1234567812345678'' [116,101,115,116]
     [1,2,3,4,5,6,7,8,9,10,11,12,13,14,15,16,17,18,19,20,21,22,23,24,25,26,27,28,29,30,
      31,32,33,34,35,36,37,38,39,40]
   = Ok ((''HR4fICEiIyQlJico*UEFXUCQkJCQkJCQkJCQkJCQkJCQ='',
          ''ERITFBUWFxgZGhsc*DQ4PCAkKCwQFBgcAAQIDHAwMDAwMDAwMDAwMDAwMDAw=''), [])"
  by (simp add: encryptionData_def generateRandom_def rand_Read_def sizeRandomKey_def
        encrypt_def adjustKeySize_def bytes_of_test_master_key aes_NewCipher_def
        cipher_NewGCM_def NonceSize_def Seal_def gcmMaxPlaintext_def replicate16 refAead_def
        refSeal_def maskOf_def enc6_def encodeStd_def Let_def)

lemma bytes_of_long_master_key:
  "bytes_of_string ''1234567812345678-and-more''
     = [49,50,51,52,53,54,55,56,49,50,51,52,53,54,55,56,45,97,110,100,45,109,111,114,101]"
  by (simp add: bytes_of_string_def byte_of_char_def)

lemma encryptionData_example_long_key:
  "encryptionData refAead ''1234567812345678-and-more'' [116,101,115,116]
     [1,2,3,4,5,6,7,8,9,10,11,12,13,14,15,16,17,18,19,20,21,22,23,24,25,26,27,28,29,30,
      31,32,33,34,35,36,37,38,39,40]
   = Ok ((''HR4fICEiIyQlJico*UEFXUCQkJCQkJCQkJCQkJCQkJCQ='',
          ''ERITFBUWFxgZGhsc*DQ4PCAkKCwQFBgcAAQIDHAwMDAwMDAwMDAwMDAwMDAw=''), [])"
  by (simp add: encryptionData_def generateRandom_def rand_Read_def sizeRandomKey_def
        encrypt_def adjustKeySize_def bytes_of_long_master_key aes_NewCipher_def
        cipher_NewGCM_def NonceSize_def Seal_def gcmMaxPlaintext_def replicate16 refAead_def
        refSeal_def maskOf_def enc6_def encodeStd_def Let_def)

theorem envelope_round_trip_witness:
  "gcm_correct refAead
   \<and> 16 \<le> length ''1234567812345678''
   \<and> 16 \<le> length ''1234567812345678-and-more''
   \<and> encryptionData refAead ''1234567812345678'' [116,101,115,116]
        [1,2,3,4,5,6,7,8,9,10,11,12,13,14,15,16,17,18,19,20,21,22,23,24,25,26,27,28,29,30,
         31,32,33,34,35,36,37,38,39,40]
       = Ok ((''HR4fICEiIyQlJico*UEFXUCQkJCQkJCQkJCQkJCQkJCQ='',
              ''ERITFBUWFxgZGhsc*DQ4PCAkKCwQFBgcAAQIDHAwMDAwMDAwMDAwMDAwMDAw=''), [])
   \<and> decryptionData refAead ''1234567812345678''
         ''ERITFBUWFxgZGhsc*DQ4PCAkKCwQFBgcAAQIDHAwMDAwMDAwMDAwMDAwMDAw=''
         ''HR4fICEiIyQlJico*UEFXUCQkJCQkJCQkJCQkJCQkJCQ='' = Ok [116,101,115,116]
   \<and> encryptionData refAead ''1234567812345678-and-more'' [116,101,115,116]
        [1,2,3,4,5,6,7,8,9,10,11,12,13,14,15,16,17,18,19,20,21,22,23,24,25,26,27,28,29,30,
         31,32,33,34,35,36,37,38,39,40]
       = Ok ((''HR4fICEiIyQlJico*UEFXUCQkJCQkJCQkJCQkJCQkJCQ='',
              ''ERITFBUWFxgZGhsc*DQ4PCAkKCwQFBgcAAQIDHAwMDAwMDAwMDAwMDAwMDAw=''), [])
   \<and> decryptionData refAead ''1234567812345678-and-more''
         ''ERITFBUWFxgZGhsc*DQ4PCAkKCwQFBgcAAQIDHAwMDAwMDAwMDAwMDAwMDAw=''
         ''HR4fICEiIyQlJico*UEFXUCQkJCQkJCQkJCQkJCQkJCQ='' = Ok [116,101,115,116]"
proof -
  let ?tape = "[1,2,3,4,5,6,7,8,9,10,11,12,13,14,15,16,17,18,19,20,21,22,23,24,25,26,27,28,
                29,30,31,32,33,34,35,36,37,38,39,40] :: bytes"
  have s: "16 \<le> length ''1234567812345678''" by simp
  have l: "16 \<le> length ''1234567812345678-and-more''" by simp
  have t: "40 \<le> length ?tape" by simp
  have m: "length [116,101,115,116 :: byte] \<le> gcmMaxPlaintext"
    by (simp add: gcmMaxPlaintext_def)
  note short = envelope_round_trip
                 [OF gcm_correct_refAead s, of "[116,101,115,116]" ?tape]
  note long = envelope_round_trip
                [OF gcm_correct_refAead l, of "[116,101,115,116]" ?tape]
  have "decryptionData refAead ''1234567812345678''
         ''ERITFBUWFxgZGhsc*DQ4PCAkKCwQFBgcAAQIDHAwMDAwMDAwMDAwMDAwMDAw=''
         ''HR4fICEiIyQlJico*UEFXUCQkJCQkJCQkJCQkJCQkJCQ='' = Ok [116,101,115,116]"
    using short t m encryptionData_example by simp
  moreover have "decryptionData refAead ''1234567812345678-and-more''
         ''ERITFBUWFxgZGhsc*DQ4PCAkKCwQFBgcAAQIDHAwMDAwMDAwMDAwMDAwMDAw=''
         ''HR4fICEiIyQlJico*UEFXUCQkJCQkJCQkJCQkJCQkJCQ='' = Ok [116,101,115,116]"
    using long t m encryptionData_example_long_key by simp
  ultimately show ?thesis
    using gcm_correct_refAead s l encryptionData_example encryptionData_example_long_key
    by simp
qed

section \<open>Decrypting text that has no separator\<close>

lemma decrypt_without_separator:
  assumes "CHR ''*'' \<notin> set s" and "DecodeString s = Inr b"
  shows "decrypt A key s = Panic IndexOutOfRange"
  using assms by (simp add: decrypt_def strings_Split_no_sep index_def)

lemma decrypt_bad_nonce_length:
  assumes "length nonce \<noteq> 12"
  shows "decrypt A key (EncodeToString nonce @ ''*'' @ EncodeToString sealed) =
           (case aes_NewCipher (adjustKeySize key sizeRandomKey) of
              Inl err \<Rightarrow> Err (Wrap ''failed to create AES cipher'' err)
            | Inr block \<Rightarrow> Panic IncorrectNonceLength)"
proof -
  have sp: "strings_Split (EncodeToString nonce @ ''*'' @ EncodeToString sealed) (CHR ''*'')
              = [EncodeToString nonce, EncodeToString sealed]"
    by (rule strings_Split_encoded)
  show ?thesis
    unfolding decrypt_def sp using assms
    by (simp add: index_def DecodeString_EncodeToString Let_def cipher_NewGCM_def Open_def
          NonceSize_def split: sum.splits)
qed

text \<open>
  C3. The claim is that \<open>decrypt\<close> answers every text without the \<open>*\<close> separator with an
  error. On the empty text \<open>strings.Split\<close> yields one part, that part decodes to no bytes,
  and the read of \<open>splStr[1]\<close> is out of range: \<open>decrypt\<close> panics, and so does
  \<open>decryptionData\<close> on a stored key that is empty.
\<close>

theorem decrypt_empty_text_panics:
  "decrypt A key [] = Panic IndexOutOfRange
   \<and> decryptionData A mk [] stored = Panic IndexOutOfRange"
  by (simp add: decryptionData_def decrypt_def index_def DecodeString_def)

section \<open>Key-length normalization\<close>




section \<open>Owner-scoped lookups\<close>

lemma DB_ReadRecord_no_row:
  assumes "\<forall>r\<in>set (db_storages db). \<not> (Storage_ID r = i \<and> Storage_Owner r = owner)"
  shows "DB_ReadRecord db i owner = Inr None"
proof -
  have "filter (\<lambda>r. Storage_ID r = i \<and> Storage_Owner r = owner) (db_storages db) = []"
    using assms by (simp add: filter_empty_conv)
  then show ?thesis
    by (simp add: DB_ReadRecord_def First_def split: option.splits)
qed

lemma DB_ReadAllRecord_no_row:
  assumes "\<forall>r\<in>set (db_storages db). Storage_Owner r \<noteq> owner"
  shows "DB_ReadAllRecord db owner = Inr []"
proof -
  have "filter (\<lambda>r. Storage_Owner r = owner) (db_storages db) = []"
    using assms by (simp add: filter_empty_conv)
  then show ?thesis
    by (simp add: DB_ReadAllRecord_def Select_Find_def split: option.splits)
qed

lemma DB_ReadAllRecord_types:
  "DB_ReadAllRecord db owner = Inr docs \<Longrightarrow> \<forall>v\<in>set docs. Storage_Type v = []"
  by (auto simp: DB_ReadAllRecord_def Select_Find_def Let_def selectIdNameOwner_def
      split: option.splits if_splits)

lemma DB_ReadAllRecord_rows:
  "db_fault db = None \<Longrightarrow>
     DB_ReadAllRecord db owner
       = Inr (map selectIdNameOwner (filter (\<lambda>r. Storage_Owner r = owner) (db_storages db)))"
  by (simp add: DB_ReadAllRecord_def Select_Find_def Let_def)

lemma DB_ReadAllRecord_fault:
  "db_fault db = Some err \<Longrightarrow> DB_ReadAllRecord db owner = Inr []"
  by (simp add: DB_ReadAllRecord_def Select_Find_def)

text \<open>
  C4, as the code has it. When the owner-scoped lookup yields nothing, whether no row has
  the id or the row belongs to another owner, \<open>ReadRecord\<close> answers with the business
  error "record not found"; \<open>ReadAllRecord\<close> answers with an empty list of units and an
  empty error field.
\<close>

theorem lookup_yields_nothing:
  assumes "svc_ReadRecord (Svc s) = DB_ReadRecord db"
    and "svc_ReadAllRecord (Svc s) = DB_ReadAllRecord db"
  shows "((\<forall>r\<in>set (db_storages db).
             \<not> (Storage_ID r = scast i \<and> Storage_Owner r = claims_ID token)) \<longrightarrow>
          ReadRecord A s (Some token) i =
            Returns (Some \<lparr>Read_Name = [], Read_Type = [], Read_Data = [],
                            Read_Error = ''record not found''\<rparr>, None))
       \<and> ((\<forall>r\<in>set (db_storages db). Storage_Owner r \<noteq> claims_ID token) \<longrightarrow>
          ReadAllRecord s (Some token) =
            (Some \<lparr>ReadAll_Units = [], ReadAll_Error = []\<rparr>, None))"
  using assms
  by (simp add: ReadRecord_def ReadAllRecord_def GetTokenFromContext_def
        DB_ReadRecord_no_row DB_ReadAllRecord_no_row)

theorem lookup_yields_nothing_witness:
  "ReadRecord refAead \<lparr>Svc = NewStorageService oneRecordStore, MasterKey = testMasterKey\<rparr>
       (Some otherToken) 1
     = Returns (Some \<lparr>Read_Name = [], Read_Type = [], Read_Data = [],
                     Read_Error = ''record not found''\<rparr>, None)
   \<and> ReadRecord refAead \<lparr>Svc = NewStorageService oneRecordStore, MasterKey = testMasterKey\<rparr>
       (Some otherToken) 7
     = Returns (Some \<lparr>Read_Name = [], Read_Type = [], Read_Data = [],
                     Read_Error = ''record not found''\<rparr>, None)
   \<and> ReadAllRecord \<lparr>Svc = NewStorageService oneRecordStore, MasterKey = testMasterKey\<rparr>
       (Some otherToken)
     = (Some \<lparr>ReadAll_Units = [], ReadAll_Error = []\<rparr>, None)"
  using lookup_yields_nothing
          [of "\<lparr>Svc = NewStorageService oneRecordStore, MasterKey = testMasterKey\<rparr>"
              oneRecordStore 1 otherToken refAead]
        lookup_yields_nothing
          [of "\<lparr>Svc = NewStorageService oneRecordStore, MasterKey = testMasterKey\<rparr>"
              oneRecordStore 7 otherToken refAead]
  by (simp add: NewStorageService_def oneRecordStore_def testRecord_def otherToken_def)

text \<open>
  C4, as stated, fails for the list operation: on a store without any record the
  response of \<open>ReadAllRecord\<close> carries no error at all.
\<close>

theorem list_of_nothing_has_no_error:
  "ReadAllRecord \<lparr>Svc = NewStorageService emptyStore, MasterKey = testMasterKey\<rparr>
       (Some testToken)
     = (Some \<lparr>ReadAll_Units = [], ReadAll_Error = []\<rparr>, None)"
  by (simp add: ReadAllRecord_def GetTokenFromContext_def NewStorageService_def
        DB_ReadAllRecord_def Select_Find_def emptyStore_def)

text \<open>
  C10. The list query selects the id, name and owner columns only, so every unit that
  \<open>ReadAllRecord\<close> returns has the empty string as its type, whatever kind the stored
  records have; with a working store there is one unit per record of the owner.
\<close>

theorem listed_units_have_empty_type:
  assumes "svc_ReadAllRecord (Svc s) = DB_ReadAllRecord db"
  shows "\<exists>resp. ReadAllRecord s (Some token) = (Some resp, None)
           \<and> (\<forall>u\<in>set (ReadAll_Units resp). Unit_Type u = [])
           \<and> (db_fault db = None \<longrightarrow>
                length (ReadAll_Units resp)
                  = length (filter (\<lambda>r. Storage_Owner r = claims_ID token) (db_storages db)))"
proof (cases "db_fault db")
  case None
  then show ?thesis
    using assms
    by (simp add: ReadAllRecord_def GetTokenFromContext_def DB_ReadAllRecord_rows
          selectIdNameOwner_def)
next
  case (Some err)
  then show ?thesis
    using assms
    by (simp add: ReadAllRecord_def GetTokenFromContext_def DB_ReadAllRecord_fault)
qed

theorem listed_units_have_empty_type_witness:
  "Storage_Type testRecord = ''text''
   \<and> ReadAllRecord \<lparr>Svc = NewStorageService oneRecordStore, MasterKey = testMasterKey\<rparr>
       (Some testToken)
     = (Some \<lparr>ReadAll_Units =
                 [\<lparr>Unit_Id = 1, Unit_Name = ''test'', Unit_Type = [], Unit_Owner = 1\<rparr>],
               ReadAll_Error = []\<rparr>, None)"
  using listed_units_have_empty_type
          [of "\<lparr>Svc = NewStorageService oneRecordStore, MasterKey = testMasterKey\<rparr>"
              oneRecordStore testToken]
  by (simp add: ReadAllRecord_def GetTokenFromContext_def NewStorageService_def
        DB_ReadAllRecord_def Select_Find_def selectIdNameOwner_def oneRecordStore_def
        testRecord_def testToken_def)

section \<open>Unary handlers never raise a transport error\<close>

lemma ReadAllRecord_answered: "answered (ReadAllRecord s ctx)"
  by (simp add: answered_def ReadAllRecord_def GetTokenFromContext_def Let_def
      split: option.splits sum.splits)

lemma ReadAllRecord_failure:
  "ReadAllRecord_fails s ctx \<Longrightarrow> business_error (ReadAllRecord s ctx) ReadAll_Error"
  by (simp add: ReadAllRecord_fails_def business_error_def ReadAllRecord_def
        GetTokenFromContext_def errorInvalidToken_def Let_def
      split: option.splits sum.splits)

lemma ReadRecord_answered: "ReadRecord A s ctx i = Returns out \<Longrightarrow> answered out"
  by (auto simp: answered_def ReadRecord_def GetTokenFromContext_def Let_def
      split: option.splits sum.splits result.splits)

lemma ReadRecord_failure:
  assumes "ReadRecord_fails A s ctx i"
  shows "\<exists>out. ReadRecord A s ctx i = Returns out \<and> business_error out Read_Error"
proof (cases ctx)
  case None
  then show ?thesis
    by (simp add: ReadRecord_def GetTokenFromContext_def business_error_def
          errorInvalidToken_def)
next
  case ctx: (Some token)
  show ?thesis
  proof (cases "svc_ReadRecord (Svc s) (scast i) (claims_ID token)")
    case (Inl err)
    with ctx show ?thesis
      by (simp add: ReadRecord_def GetTokenFromContext_def business_error_def)
  next
    case found: (Inr found)
    show ?thesis
    proof (cases found)
      case None
      with ctx found show ?thesis
        by (simp add: ReadRecord_def GetTokenFromContext_def business_error_def)
    next
      case (Some rec)
      with assms ctx found obtain err where
        "decryptionData A (MasterKey s) (Storage_Key rec) (Storage_Value rec) = Err err"
        by (auto simp: ReadRecord_fails_def split: result.splits)
      with ctx found Some show ?thesis
        by (simp add: ReadRecord_def GetTokenFromContext_def business_error_def)
    qed
  qed
qed

lemma DeleteRecord_answered: "answered (DeleteRecord s ctx i)"
  by (simp add: answered_def DeleteRecord_def GetTokenFromContext_def Let_def
      split: option.splits)

lemma DeleteRecord_failure:
  "DeleteRecord_fails s ctx i \<Longrightarrow> business_error (DeleteRecord s ctx i) Delete_Error"
  by (auto simp: DeleteRecord_fails_def business_error_def DeleteRecord_def
        GetTokenFromContext_def errorInvalidToken_def Let_def
      split: option.splits)

lemma Register_answered: "answered (fst (Register E h req))"
  by (simp add: answered_def Register_def Let_def split: sum.splits)

lemma Register_failure:
  "Register_fails E h req \<Longrightarrow> business_error (fst (Register E h req)) Register_Error"
  by (auto simp: Register_fails_def business_error_def Register_def Let_def
      split: sum.splits)

lemma Login_answered: "answered (fst (Login E h req))"
  by (simp add: answered_def Login_def Let_def split: sum.splits option.splits)

lemma Login_failure:
  "Login_fails E h req \<Longrightarrow> business_error (fst (Login E h req)) Login_Error"
  by (auto simp: Login_fails_def business_error_def Login_def Let_def
      split: sum.splits option.splits)

text \<open>
  Whenever a unary handler returns, it returns a non-nil response and a nil transport
  error; and at each failure that its collaborators report (missing identity claim,
  storage error, record or user not found, decryption error, hashing or signing error,
  bad credentials) it returns with the error field of the response populated.
\<close>

lemma unary_returns_are_business_responses:
  "answered (ReadAllRecord s ctx)
   \<and> (ReadAllRecord_fails s ctx \<longrightarrow> business_error (ReadAllRecord s ctx) ReadAll_Error)
   \<and> (\<forall>out. ReadRecord A s ctx i = Returns out \<longrightarrow> answered out)
   \<and> (ReadRecord_fails A s ctx i \<longrightarrow>
        (\<exists>out. ReadRecord A s ctx i = Returns out \<and> business_error out Read_Error))
   \<and> answered (DeleteRecord s ctx i)
   \<and> (DeleteRecord_fails s ctx i \<longrightarrow> business_error (DeleteRecord s ctx i) Delete_Error)
   \<and> answered (fst (Register E h rreq))
   \<and> (Register_fails E h rreq \<longrightarrow> business_error (fst (Register E h rreq)) Register_Error)
   \<and> answered (fst (Login E h lreq))
   \<and> (Login_fails E h lreq \<longrightarrow> business_error (fst (Login E h lreq)) Login_Error)"
  by (intro conjI allI impI)
     (erule ReadAllRecord_failure ReadRecord_answered ReadRecord_failure DeleteRecord_failure
            Register_failure Login_failure
      | rule ReadAllRecord_answered DeleteRecord_answered Register_answered Login_answered)+

text \<open>
  C7. The claim is that every failure of a unary handler, a decryption failure included,
  ends in a response with the error populated. \<open>ReadRecord\<close> on a stored record whose
  encrypted key is the empty text does not return at all: \<open>decryptionData\<close> panics on the
  missing separator before any response is built.
\<close>

theorem read_of_empty_envelope_panics:
  "ReadRecord refAead \<lparr>Svc = NewStorageService brokenStore, MasterKey = testMasterKey\<rparr>
     (Some testToken) 1
   = Panics IndexOutOfRange"
  by (simp add: ReadRecord_def GetTokenFromContext_def NewStorageService_def DB_ReadRecord_def
        First_def brokenStore_def testToken_def decryptionData_def decrypt_def index_def
        DecodeString_def)

section \<open>Registration with an empty login or password\<close>

lemma Register_calls_hash_first:
  "Register_Login req \<noteq> [] \<Longrightarrow> Register_Password req \<noteq> [] \<Longrightarrow>
     hd (snd (Register E h req))
       = Call_GenerateFromPassword (bytes_of_string (Register_Password req))"
  by (simp add: Register_def Let_def split: sum.splits)

lemma Register_creates_user_after_hash:
  "Register_Login req \<noteq> [] \<Longrightarrow> Register_Password req \<noteq> [] \<Longrightarrow>
   bcrypt_GenerateFromPassword E (bytes_of_string (Register_Password req)) = Inr hash \<Longrightarrow>
     Call_CreateUser (Register_Login req) (string_of_bytes hash) \<in> set (snd (Register E h req))"
  by (simp add: Register_def Let_def split: sum.splits)

text \<open>
  C9. When the login or the password of the request is empty, \<open>Register\<close> answers with
  the business error "login or password incorrect" and has called no collaborator:
  neither the password hash nor the create-user operation of the storage service.
\<close>

theorem register_rejects_empty_credentials:
  assumes "Register_Login req = [] \<or> Register_Password req = []"
  shows "Register E h req =
           ((Some \<lparr>Register_Jwt = [], Register_Error = ''login or password incorrect''\<rparr>, None),
            [])"
  using assms by (auto simp: Register_def Let_def)

theorem register_rejects_empty_credentials_witness:
  "Register refusingEnv refusingUsers \<lparr>Register_Login = ''alice'', Register_Password = []\<rparr>
     = ((Some \<lparr>Register_Jwt = [], Register_Error = ''login or password incorrect''\<rparr>, None), [])
   \<and> Register refusingEnv refusingUsers \<lparr>Register_Login = [], Register_Password = ''pw1''\<rparr>
     = ((Some \<lparr>Register_Jwt = [], Register_Error = ''login or password incorrect''\<rparr>, None), [])"
  using register_rejects_empty_credentials
          [of "\<lparr>Register_Login = ''alice'', Register_Password = []\<rparr>" refusingEnv refusingUsers]
        register_rejects_empty_credentials
          [of "\<lparr>Register_Login = [], Register_Password = ''pw1''\<rparr>" refusingEnv refusingUsers]
  by simp

section \<open>The streaming upload\<close>

lemma firstNonEmpty_Cons:
  "firstNonEmpty (x # xs) = (if x = [] then firstNonEmpty xs else x)"
  by (simp add: firstNonEmpty_def)

lemma loopBody_EOF:
  "stream_incoming (wr_stream st) = [] \<Longrightarrow> loopBody st = Break st"
  by (simp add: loopBody_def Recv_def)

lemma loopBody_chunk:
  assumes "stream_incoming (wr_stream st) = RecvChunk c # rest"
  shows "loopBody st =
           Continue (st\<lparr>wr_fileName := (if wr_fileName st = [] then Chunk_Name c
                                         else wr_fileName st),
                        wr_fileType := (if wr_fileType st = [] then Chunk_Type c
                                         else wr_fileType st),
                        wr_buffer := wr_buffer st @ Chunk_Data c,
                        wr_stream := (wr_stream st)\<lparr>stream_incoming := rest\<rparr>\<rparr>)"
  using assms
  by (simp add: loopBody_def Recv_def storeChunk_def buffer_Write_def GetName_def GetType_def
        GetData_def Let_def)

text \<open>
  The loop over a stream that delivers chunks only: it ends at end of stream with the
  chunks' data appended to the buffer in arrival order, and with name and kind set from
  the first chunk that has one, unless they were set before.
\<close>

lemma receiveLoop_chunks:
  assumes "stream_incoming (wr_stream st) = map RecvChunk cs"
  shows "receiveLoop st =
           Inr (st\<lparr>wr_fileName := firstNonEmpty (wr_fileName st # map Chunk_Name cs),
                   wr_fileType := firstNonEmpty (wr_fileType st # map Chunk_Type cs),
                   wr_buffer := wr_buffer st @ concat (map Chunk_Data cs),
                   wr_stream := (wr_stream st)\<lparr>stream_incoming := []\<rparr>\<rparr>)"
  using assms
proof (induction cs arbitrary: st)
  case Nil
  then have "loopBody st = Break st" by (simp add: loopBody_EOF)
  moreover have "(wr_stream st)\<lparr>stream_incoming := []\<rparr> = wr_stream st"
    using Nil by simp
  ultimately show ?case
    by (subst receiveLoop.simps) (simp add: firstNonEmpty_def)
next
  case (Cons c cs)
  let ?st1 = "st\<lparr>wr_fileName := (if wr_fileName st = [] then Chunk_Name c else wr_fileName st),
                   wr_fileType := (if wr_fileType st = [] then Chunk_Type c else wr_fileType st),
                   wr_buffer := wr_buffer st @ Chunk_Data c,
                   wr_stream := (wr_stream st)\<lparr>stream_incoming := map RecvChunk cs\<rparr>\<rparr>"
  have b: "loopBody st = Continue ?st1"
    using Cons.prems by (simp add: loopBody_chunk)
  have "stream_incoming (wr_stream ?st1) = map RecvChunk cs" by simp
  from Cons.IH [OF this] have ih: "receiveLoop ?st1 =
      Inr (?st1\<lparr>wr_fileName := firstNonEmpty (wr_fileName ?st1 # map Chunk_Name cs),
                 wr_fileType := firstNonEmpty (wr_fileType ?st1 # map Chunk_Type cs),
                 wr_buffer := wr_buffer ?st1 @ concat (map Chunk_Data cs),
                 wr_stream := (wr_stream ?st1)\<lparr>stream_incoming := []\<rparr>\<rparr>)" .
  have "receiveLoop st = receiveLoop ?st1"
    by (subst receiveLoop.simps) (simp add: b)
  with ih show ?case
    by (simp add: firstNonEmpty_Cons)
qed

lemma receiveLoop_initial:
  assumes "stream_incoming stream0 = map RecvChunk chunks"
  shows "receiveLoop \<lparr>wr_resp = r, wr_fileName = [], wr_fileType = [], wr_buffer = [],
                      wr_stream = stream0, wr_written = []\<rparr>
         = Inr \<lparr>wr_resp = r, wr_fileName = firstNonEmpty (map Chunk_Name chunks),
                wr_fileType = firstNonEmpty (map Chunk_Type chunks),
                wr_buffer = concat (map Chunk_Data chunks),
                wr_stream = stream0\<lparr>stream_incoming := []\<rparr>, wr_written = []\<rparr>"
  using receiveLoop_chunks
          [of "\<lparr>wr_resp = r, wr_fileName = [], wr_fileType = [], wr_buffer = [],
                wr_stream = stream0, wr_written = []\<rparr>" chunks] assms
  by (simp add: firstNonEmpty_Cons)

text \<open>
  C6. In an upload whose stream delivers chunks only and whose encryption succeeds, the
  buffer handed to \<open>encryptionData\<close> is the concatenation of the chunks' data in arrival
  order, whatever its length, and the one record handed to the storage service has the
  first non-empty name and the first non-empty kind among the chunks, the encrypted
  pair, and the caller as owner. When the service and the stream report no error either,
  the handler returns nil after sending one response with an empty error field.
\<close>

theorem upload_persists_concatenation:
  assumes "stream_Context stream0 = Some token"
    and "stream_incoming stream0 = map RecvChunk chunks"
    and "encryptionData A (MasterKey s) (concat (map Chunk_Data chunks)) tape
           = Ok ((data, key), tape')"
  shows "\<exists>err st. WriteRecord A s tape stream0 = Returns (err, st)
           \<and> wr_buffer st = concat (map Chunk_Data chunks)
           \<and> wr_written st = [uploadedRecord token chunks data key]
           \<and> (svc_WriteRecord (Svc s) (uploadedRecord token chunks data key) = None \<longrightarrow>
                stream_closeResults stream0 = [] \<longrightarrow>
                err = None
                \<and> stream_sent (wr_stream st) = stream_sent stream0 @ [\<lparr>Write_Error = []\<rparr>])"
proof -
  have l: "receiveLoop \<lparr>wr_resp = \<lparr>Write_Error = []\<rparr>, wr_fileName = [], wr_fileType = [],
                        wr_buffer = [], wr_stream = stream0, wr_written = []\<rparr>
         = Inr \<lparr>wr_resp = \<lparr>Write_Error = []\<rparr>,
                wr_fileName = firstNonEmpty (map Chunk_Name chunks),
                wr_fileType = firstNonEmpty (map Chunk_Type chunks),
                wr_buffer = concat (map Chunk_Data chunks),
                wr_stream = stream0\<lparr>stream_incoming := []\<rparr>, wr_written = []\<rparr>"
    using assms(2) by (rule receiveLoop_initial)
  show ?thesis
    using assms(1,3)
    by (auto simp: WriteRecord_def GetTokenFromContext_def l persist_def
          failWith_def SendAndClose_def uploadedRecord_def Let_def
        split: option.splits list.splits)
qed

lemma encryptionData_abcdef:
  "encryptionData refAead testMasterKey [97,98,99,100,101,102] testTape
   = Ok ((''HR4fICEiIyQlJico*RUZHQEFCJCQkJCQkJCQkJCQkJCQkJA=='',
          ''ERITFBUWFxgZGhsc*DQ4PCAkKCwQFBgcAAQIDHAwMDAwMDAwMDAwMDAwMDAw=''), [])"
  by (simp add: testMasterKey_def testTape_def encryptionData_def generateRandom_def
        rand_Read_def sizeRandomKey_def encrypt_def adjustKeySize_def bytes_of_test_master_key
        aes_NewCipher_def cipher_NewGCM_def NonceSize_def Seal_def gcmMaxPlaintext_def
        replicate16 refAead_def refSeal_def maskOf_def enc6_def encodeStd_def Let_def)

theorem upload_persists_concatenation_witness:
  "WriteRecord refAead \<lparr>Svc = NewStorageService emptyStore, MasterKey = testMasterKey\<rparr>
     testTape twoChunkStream
   = Returns (None,
       \<lparr>wr_resp = \<lparr>Write_Error = []\<rparr>,
        wr_fileName = ''n'', wr_fileType = ''text'', wr_buffer = [97,98,99,100,101,102],
        wr_stream =
          \<lparr>stream_Context = Some testToken, stream_incoming = [], stream_closeResults = [],
           stream_sent = [\<lparr>Write_Error = []\<rparr>]\<rparr>,
        wr_written =
          [\<lparr>Storage_ID = 0, Storage_Name = ''n'', Storage_Type = ''text'',
            Storage_Value = ''HR4fICEiIyQlJico*RUZHQEFCJCQkJCQkJCQkJCQkJCQkJA=='',
            Storage_Key = ''ERITFBUWFxgZGhsc*DQ4PCAkKCwQFBgcAAQIDHAwMDAwMDAwMDAwMDAwMDAw='',
            Storage_Owner = 1\<rparr>]\<rparr>)"
proof -
  let ?chunks = "[\<lparr>Chunk_Name = [], Chunk_Type = ''text'', Chunk_Data = [97,98,99]\<rparr>,
                  \<lparr>Chunk_Name = ''n'', Chunk_Type = ''file'', Chunk_Data = [100,101,102]\<rparr>]"
  let ?s = "\<lparr>Svc = NewStorageService emptyStore, MasterKey = testMasterKey\<rparr>"
  have h1: "stream_Context twoChunkStream = Some testToken"
    by (simp add: twoChunkStream_def)
  have h2: "stream_incoming twoChunkStream = map RecvChunk ?chunks"
    by (simp add: twoChunkStream_def)
  have h3: "encryptionData refAead (MasterKey ?s) (concat (map Chunk_Data ?chunks)) testTape
     = Ok ((''HR4fICEiIyQlJico*RUZHQEFCJCQkJCQkJCQkJCQkJCQkJA=='',
            ''ERITFBUWFxgZGhsc*DQ4PCAkKCwQFBgcAAQIDHAwMDAwMDAwMDAwMDAwMDAw=''), [])"
    using encryptionData_abcdef by simp
  from upload_persists_concatenation [OF h1 h2 h3] obtain err st where
    r: "WriteRecord refAead ?s testTape twoChunkStream = Returns (err, st)"
    by blast
  have l: "receiveLoop \<lparr>wr_resp = \<lparr>Write_Error = []\<rparr>, wr_fileName = [], wr_fileType = [],
                        wr_buffer = [], wr_stream = twoChunkStream, wr_written = []\<rparr>
         = Inr \<lparr>wr_resp = \<lparr>Write_Error = []\<rparr>, wr_fileName = ''n'', wr_fileType = ''text'',
                wr_buffer = [97,98,99,100,101,102],
                wr_stream = twoChunkStream\<lparr>stream_incoming := []\<rparr>, wr_written = []\<rparr>"
    using receiveLoop_initial [OF h2, of "\<lparr>Write_Error = []\<rparr>"]
    by (simp add: firstNonEmpty_def)
  have s: "twoChunkStream\<lparr>stream_incoming := []\<rparr> =
             \<lparr>stream_Context = Some testToken, stream_incoming = [], stream_closeResults = [],
              stream_sent = []\<rparr>"
    by (simp add: twoChunkStream_def)
  have o: "claims_ID testToken = 1"
    by (simp add: testToken_def)
  show ?thesis
    using r
    by (simp add: WriteRecord_def GetTokenFromContext_def h1 l encryptionData_abcdef s o
          persist_def failWith_def SendAndClose_def NewStorageService_def emptyStore_def Let_def)
qed

section \<open>Failures during the upload\<close>

text \<open>
  After a failure the handler sends the error response and goes on with the next
  statement. Two general consequences: a failing storage write is answered twice, and
  an upload without identity claim is received, encrypted and persisted for owner 0.
\<close>

lemma WriteRecord_storage_failure:
  assumes "stream_Context stream0 = Some token"
    and "stream_incoming stream0 = map RecvChunk chunks"
    and "stream_closeResults stream0 = []"
    and "encryptionData A (MasterKey s) (concat (map Chunk_Data chunks)) tape
           = Ok ((data, key), tape')"
    and "svc_WriteRecord (Svc s) (uploadedRecord token chunks data key) = Some err"
  shows "\<exists>st. WriteRecord A s tape stream0 = Returns (None, st)
           \<and> stream_sent (wr_stream st)
               = stream_sent stream0 @ [\<lparr>Write_Error = ''failed write record''\<rparr>,
                                        \<lparr>Write_Error = ''failed write record''\<rparr>]"
proof -
  have l: "receiveLoop \<lparr>wr_resp = \<lparr>Write_Error = []\<rparr>, wr_fileName = [], wr_fileType = [],
                        wr_buffer = [], wr_stream = stream0, wr_written = []\<rparr>
         = Inr \<lparr>wr_resp = \<lparr>Write_Error = []\<rparr>,
                wr_fileName = firstNonEmpty (map Chunk_Name chunks),
                wr_fileType = firstNonEmpty (map Chunk_Type chunks),
                wr_buffer = concat (map Chunk_Data chunks),
                wr_stream = stream0\<lparr>stream_incoming := []\<rparr>, wr_written = []\<rparr>"
    using assms(2) by (rule receiveLoop_initial)
  show ?thesis
    using assms(1,3,4,5)
    by (simp add: WriteRecord_def GetTokenFromContext_def l persist_def
          failWith_def SendAndClose_def uploadedRecord_def Let_def)
qed

lemma WriteRecord_without_identity:
  assumes "stream_Context stream0 = None"
    and "stream_incoming stream0 = map RecvChunk chunks"
    and "stream_closeResults stream0 = []"
    and "encryptionData A (MasterKey s) (concat (map Chunk_Data chunks)) tape
           = Ok ((data, key), tape')"
    and "svc_WriteRecord (Svc s) (uploadedRecord zeroClaims chunks data key) = None"
  shows "\<exists>st. WriteRecord A s tape stream0 = Returns (None, st)
           \<and> wr_written st = [uploadedRecord zeroClaims chunks data key]
           \<and> stream_sent (wr_stream st)
               = stream_sent stream0 @ [\<lparr>Write_Error = ''invalid token''\<rparr>,
                                        \<lparr>Write_Error = ''invalid token''\<rparr>]"
proof -
  let ?st1 = "\<lparr>wr_resp = \<lparr>Write_Error = ''invalid token''\<rparr>, wr_fileName = [],
               wr_fileType = [], wr_buffer = [],
               wr_stream = stream0\<lparr>stream_sent :=
                                      stream_sent stream0 @ [\<lparr>Write_Error = ''invalid token''\<rparr>]\<rparr>,
               wr_written = []\<rparr>"
  have "stream_incoming (wr_stream ?st1) = map RecvChunk chunks"
    using assms(2) by simp
  from receiveLoop_chunks [OF this]
  have l: "receiveLoop ?st1 =
      Inr (?st1\<lparr>wr_fileName := firstNonEmpty (map Chunk_Name chunks),
                 wr_fileType := firstNonEmpty (map Chunk_Type chunks),
                 wr_buffer := concat (map Chunk_Data chunks),
                 wr_stream := (wr_stream ?st1)\<lparr>stream_incoming := []\<rparr>\<rparr>)"
    by (simp add: firstNonEmpty_Cons)
  show ?thesis
    using assms(1,3,4,5)
    by (simp add: WriteRecord_def GetTokenFromContext_def errorInvalidToken_def l persist_def
          failWith_def SendAndClose_def uploadedRecord_def Let_def)
qed

text \<open>
  With a master key that the cipher rejects, the upload is answered "failed encrypt data"
  twice and a record with empty encrypted strings is handed to the storage service.
\<close>

lemma failed_encryption_is_persisted:
  assumes "svc_WriteRecord svc = (\<lambda>doc. None)"
  shows "WriteRecord A \<lparr>Svc = svc, MasterKey = []\<rparr> tape testStream
   = Returns (None,
       \<lparr>wr_resp = \<lparr>Write_Error = ''failed encrypt data''\<rparr>,
        wr_fileName = ''test'', wr_fileType = ''text'', wr_buffer = [116,101,115,116],
        wr_stream =
          \<lparr>stream_Context = Some testToken, stream_incoming = [], stream_closeResults = [],
           stream_sent = [\<lparr>Write_Error = ''failed encrypt data''\<rparr>,
                          \<lparr>Write_Error = ''failed encrypt data''\<rparr>]\<rparr>,
        wr_written =
          [\<lparr>Storage_ID = 0, Storage_Name = ''test'', Storage_Type = ''text'',
            Storage_Value = [], Storage_Key = [], Storage_Owner = 1\<rparr>]\<rparr>)"
proof -
  have e: "\<exists>err. encryptionData A [] [116,101,115,116] tape = Err err"
    by (simp add: encryptionData_def generateRandom_def rand_Read_def encrypt_def
          adjustKeySize_def sizeRandomKey_def bytes_of_string_def aes_NewCipher_def Let_def)
  then obtain err where e': "encryptionData A [] [116,101,115,116] tape = Err err" ..
  have l: "receiveLoop \<lparr>wr_resp = \<lparr>Write_Error = []\<rparr>, wr_fileName = [], wr_fileType = [],
                        wr_buffer = [], wr_stream = testStream, wr_written = []\<rparr>
         = Inr \<lparr>wr_resp = \<lparr>Write_Error = []\<rparr>, wr_fileName = ''test'',
                wr_fileType = ''text'', wr_buffer = [116,101,115,116],
                wr_stream = testStream\<lparr>stream_incoming := []\<rparr>, wr_written = []\<rparr>"
    using receiveLoop_initial [of testStream "[testChunk]" "\<lparr>Write_Error = []\<rparr>"]
    by (simp add: testStream_def testChunk_def firstNonEmpty_def)
  have c: "stream_Context testStream = Some testToken"
    by (simp add: testStream_def)
  have s: "testStream\<lparr>stream_incoming := []\<rparr> =
             \<lparr>stream_Context = Some testToken, stream_incoming = [], stream_closeResults = [],
              stream_sent = []\<rparr>"
    by (simp add: testStream_def)
  have o: "claims_ID testToken = 1"
    by (simp add: testToken_def)
  show ?thesis
    using assms
    by (simp add: WriteRecord_def GetTokenFromContext_def c l e' s o persist_def failWith_def
          SendAndClose_def Let_def)
qed

text \<open>
  C2. The claim is that after any failing stage the handler sends its single error
  response, closes the stream once and runs no later stage. With the identity claim
  present, one chunk received, encryption done and the storage write failing, the
  handler calls \<open>SendAndClose\<close> for the error and then falls through to the final
  \<open>SendAndClose\<close>: two responses are sent and the handler returns nil.
\<close>

theorem storage_failure_is_answered_twice:
  "WriteRecord refAead \<lparr>Svc = NewStorageService faultyStore, MasterKey = testMasterKey\<rparr>
     testTape testStream
   = Returns (None,
       \<lparr>wr_resp = \<lparr>Write_Error = ''failed write record''\<rparr>,
        wr_fileName = ''test'', wr_fileType = ''text'', wr_buffer = [116,101,115,116],
        wr_stream =
          \<lparr>stream_Context = Some testToken, stream_incoming = [], stream_closeResults = [],
           stream_sent = [\<lparr>Write_Error = ''failed write record''\<rparr>,
                          \<lparr>Write_Error = ''failed write record''\<rparr>]\<rparr>,
        wr_written =
          [\<lparr>Storage_ID = 0, Storage_Name = ''test'', Storage_Type = ''text'',
            Storage_Value = ''HR4fICEiIyQlJico*UEFXUCQkJCQkJCQkJCQkJCQkJCQ='',
            Storage_Key = ''ERITFBUWFxgZGhsc*DQ4PCAkKCwQFBgcAAQIDHAwMDAwMDAwMDAwMDAwMDAw='',
            Storage_Owner = 1\<rparr>]\<rparr>)"
proof -
  have e: "encryptionData refAead testMasterKey [116,101,115,116] testTape
     = Ok ((''HR4fICEiIyQlJico*UEFXUCQkJCQkJCQkJCQkJCQkJCQ='',
          ''ERITFBUWFxgZGhsc*DQ4PCAkKCwQFBgcAAQIDHAwMDAwMDAwMDAwMDAwMDAw=''), [])"
    using encryptionData_example by (simp add: testMasterKey_def testTape_def)
  have l: "receiveLoop \<lparr>wr_resp = \<lparr>Write_Error = []\<rparr>, wr_fileName = [], wr_fileType = [],
                        wr_buffer = [], wr_stream = testStream, wr_written = []\<rparr>
         = Inr \<lparr>wr_resp = \<lparr>Write_Error = []\<rparr>, wr_fileName = ''test'',
                wr_fileType = ''text'', wr_buffer = [116,101,115,116],
                wr_stream = testStream\<lparr>stream_incoming := []\<rparr>, wr_written = []\<rparr>"
    using receiveLoop_initial [of testStream "[testChunk]" "\<lparr>Write_Error = []\<rparr>"]
    by (simp add: testStream_def testChunk_def firstNonEmpty_def)
  have c: "stream_Context testStream = Some testToken"
    by (simp add: testStream_def)
  have s: "testStream\<lparr>stream_incoming := []\<rparr> =
             \<lparr>stream_Context = Some testToken, stream_incoming = [], stream_closeResults = [],
              stream_sent = []\<rparr>"
    by (simp add: testStream_def)
  have o: "claims_ID testToken = 1"
    by (simp add: testToken_def)
  show ?thesis
    by (simp add: WriteRecord_def GetTokenFromContext_def c l e s o persist_def failWith_def
          SendAndClose_def NewStorageService_def faultyStore_def Let_def)
qed

end
